theory Spec2Isabelle
  imports Complex_Main
begin

section \<open>JavaScript values\<close>

text \<open>
  A JavaScript number is modelled as an exact real or \<open>NaN\<close>: the rounding and the
  overflow of IEEE doubles (and with them the infinities) are left out, \<open>NaN\<close> is
  kept because an out-of-range array read produces it. The operations below are the
  ones the browser code uses: \<open>+\<close>, \<open>-\<close>, \<open>*\<close>, \<open>/\<close>,
  \<open>Math.pow(x, 2)\<close>, \<open>Math.sqrt\<close> and \<open><\<close>. Any comparison with
  \<open>NaN\<close> is false.
\<close>

datatype num = Num real | NaN

fun num_add :: "num \<Rightarrow> num \<Rightarrow> num" where
  "num_add (Num x) (Num y) = Num (x + y)"
| "num_add _ _ = NaN"

fun num_sub :: "num \<Rightarrow> num \<Rightarrow> num" where
  "num_sub (Num x) (Num y) = Num (x - y)"
| "num_sub _ _ = NaN"

fun num_mul :: "num \<Rightarrow> num \<Rightarrow> num" where
  "num_mul (Num x) (Num y) = Num (x * y)"
| "num_mul _ _ = NaN"

text \<open>Division is only ever applied to a divisor that is a positive count; a zero
  divisor (an infinity or \<open>NaN\<close> in JavaScript) is mapped to \<open>NaN\<close>.\<close>

fun num_div :: "num \<Rightarrow> num \<Rightarrow> num" where
  "num_div (Num x) (Num y) = (if y = 0 then NaN else Num (x / y))"
| "num_div _ _ = NaN"

fun num_pow2 :: "num \<Rightarrow> num" where
  "num_pow2 (Num x) = Num (x\<^sup>2)"
| "num_pow2 NaN = NaN"

fun num_sqrt :: "num \<Rightarrow> num" where
  "num_sqrt (Num x) = (if x < 0 then NaN else Num (sqrt x))"
| "num_sqrt NaN = NaN"

fun num_less :: "num \<Rightarrow> num \<Rightarrow> bool" where
  "num_less (Num x) (Num y) = (x < y)"
| "num_less _ _ = False"

text \<open>\<open>xs[i]\<close> in arithmetic: an index past the end reads \<open>undefined\<close>, which
  arithmetic turns into \<open>NaN\<close>.\<close>

definition elem :: "num list \<Rightarrow> nat \<Rightarrow> num" where
  "elem xs i = (if i < length xs then xs ! i else NaN)"

subsection \<open>Strings\<close>

text \<open>Strings are byte lists; \<open>toUpperCase\<close> and \<open>trim\<close> are modelled on
  ASCII (letters a-z, and the white space characters tab, line feed, vertical tab,
  form feed, carriage return and space).\<close>

definition upper_char :: "char \<Rightarrow> char" where
  "upper_char c =
     (case map_of (zip ''abcdefghijklmnopqrstuvwxyz'' ''ABCDEFGHIJKLMNOPQRSTUVWXYZ'') c of
        Some u \<Rightarrow> u
      | None \<Rightarrow> c)"

definition toUpperCase :: "string \<Rightarrow> string" where
  "toUpperCase s = map upper_char s"

definition is_space :: "char \<Rightarrow> bool" where
  "is_space c = (c \<in> {CHR 0x09, CHR 0x0A, CHR 0x0B, CHR 0x0C, CHR 0x0D, CHR '' ''})"

definition trim :: "string \<Rightarrow> string" where
  "trim s = rev (dropWhile is_space (rev (dropWhile is_space s)))"

definition digit_char :: "nat \<Rightarrow> char" where
  "digit_char d = ''0123456789'' ! d"

fun digits :: "nat \<Rightarrow> string" where
  "digits n =
     (if n < 10 then [digit_char n] else digits (n div 10) @ [digit_char (n mod 10)])"

declare digits.simps [simp del]

text \<open>\<open>x.toFixed(1)\<close> for \<open>\<bar>x\<bar> < 10\<^sup>2\<^sup>1\<close> (larger magnitudes, printed in
  exponent notation, do not arise below): the integer \<open>n\<close> with \<open>n / 10\<close> closest to
  \<open>\<bar>x\<bar>\<close>, the larger one on a tie, printed with one fractional digit, after a
  minus sign when \<open>x < 0\<close>.\<close>

definition toFixed1_tenths :: "real \<Rightarrow> nat" where
  "toFixed1_tenths x = nat \<lfloor>\<bar>x\<bar> * 10 + 1 / 2\<rfloor>"

definition toFixed1 :: "real \<Rightarrow> string" where
  "toFixed1 x =
     (let n = toFixed1_tenths x
      in (if x < 0 then ''-'' else []) @ digits (n div 10) @ ''.'' @ digits (n mod 10))"

fun num_toFixed1 :: "num \<Rightarrow> string" where
  "num_toFixed1 (Num x) = toFixed1 x"
| "num_toFixed1 NaN = ''NaN''"

section \<open>The browser client (app.js)\<close>

subsection \<open>Registration: averaging the captured samples\<close>

text \<open>What a handler can throw: a \<open>TypeError\<close> of the language, and the errors
  with which \<open>save\<close> rejects a document.\<close>

datatype js_error = TypeError | ValidationError | DuplicateKeyError

text \<open>The expression bound to \<open>avgDescriptor\<close>: \<open>capturedSamples[0].map\<close> over
  the indices of the first sample, each component the left-to-right sum of
  \<open>sample[i]\<close> over all samples, divided by the number of samples. Reading
  \<open>capturedSamples[0]\<close> of an empty array throws.\<close>

definition avgDescriptor :: "num list list \<Rightarrow> js_error + num list" where
  "avgDescriptor capturedSamples =
     (case capturedSamples of
        [] \<Rightarrow> Inl TypeError
      | first # _ \<Rightarrow>
          Inr (map (\<lambda>i. num_div
                          (foldl (\<lambda>acc sample. num_add acc (elem sample i)) (Num 0) capturedSamples)
                          (Num (real (length capturedSamples))))
                   [0..<length first]))"

record register_body =
  studentId :: string
  name :: string
  course :: string
  faceDescriptor :: "num list"

datatype register_outcome =
    MissingFields
  | MissingFaceSamples
  | Uncaught js_error
  | PostRegister register_body

text \<open>The click handler of \<open>registerStudent\<close>, up to the request it sends: the three
  form values and the captured samples are its inputs.\<close>

definition registerStudent :: "string \<Rightarrow> string \<Rightarrow> string \<Rightarrow> num list list \<Rightarrow> register_outcome" where
  "registerStudent reg_id reg_name reg_course capturedSamples =
     (let id = toUpperCase (trim reg_id);
          name = trim reg_name;
          course = trim reg_course
      in if id = [] \<or> name = [] \<or> course = [] then MissingFields
         else if length capturedSamples < 3 then MissingFaceSamples
         else (case avgDescriptor capturedSamples of
                 Inl e \<Rightarrow> Uncaught e
               | Inr avg \<Rightarrow>
                   PostRegister \<lparr>register_body.studentId = id, register_body.name = name,
                     register_body.course = course, register_body.faceDescriptor = avg\<rparr>))"

subsection \<open>Check-in: nearest enrolled descriptor under the threshold\<close>

definition euclideanDistance :: "num list \<Rightarrow> num list \<Rightarrow> num" where
  "euclideanDistance a b =
     num_sqrt (foldl (\<lambda>sum (val, i). num_add sum (num_pow2 (num_sub val (elem b i))))
                 (Num 0) (zip a [0..<length a]))"

record student_descriptor =
  id' :: string
  name :: string
  course :: string
  faceData :: "num list"

record checkin_body =
  studentId :: string
  name :: string
  course :: string
  confidence :: string

datatype verify_outcome =
    NoFaceDetected
  | NoStudents
  | NotRecognized
  | PostCheckin checkin_body

text \<open>One round of the \<open>forEach\<close> loop over \<open>studentDescriptors\<close>; the state is
  the pair \<open>(bestMatch, bestDistance)\<close>, and \<open>probe\<close> is the handler's
  \<open>faceDescriptor\<close>, the descriptor of the first detection.\<close>

definition match_step ::
  "num list \<Rightarrow> student_descriptor option \<times> num \<Rightarrow> student_descriptor
     \<Rightarrow> student_descriptor option \<times> num" where
  "match_step probe best student =
     (let distance = euclideanDistance probe (faceData student)
      in if num_less distance (snd best) then (Some student, distance) else best)"

definition bestMatchOf ::
  "num list \<Rightarrow> student_descriptor list \<Rightarrow> student_descriptor option \<times> num" where
  "bestMatchOf probe studentDescriptors =
     foldl (match_step probe) (None, Num (6 / 10)) studentDescriptors"

text \<open>The click handler of \<open>startVerify\<close>, up to the check-in request it sends. The
  detections are given by their descriptors.\<close>

definition startVerify :: "num list list \<Rightarrow> student_descriptor list \<Rightarrow> verify_outcome" where
  "startVerify checkInDetections studentDescriptors =
     (case checkInDetections of
        [] \<Rightarrow> NoFaceDetected
      | probe # _ \<Rightarrow>
          if studentDescriptors = [] then NoStudents
          else (case bestMatchOf probe studentDescriptors of
                  (None, _) \<Rightarrow> NotRecognized
                | (Some bestMatch, bestDistance) \<Rightarrow>
                    PostCheckin \<lparr>checkin_body.studentId = id' bestMatch,
                      checkin_body.name = student_descriptor.name bestMatch,
                      checkin_body.course = student_descriptor.course bestMatch,
                      checkin_body.confidence =
                        num_toFixed1 (num_mul (num_sub (Num 1) bestDistance) (Num 100))\<rparr>))"

section \<open>The server\<close>

subsection \<open>Request bodies\<close>

text \<open>A text field of a JSON body, as far as the handlers distinguish values:
  \<open>Absent\<close> is any falsy value that is not a string (missing, \<open>null\<close>,
  \<open>false\<close>, \<open>0\<close>), \<open>Str s\<close> a string (falsy when empty), \<open>Other\<close> a
  truthy value that is not a string (it has no \<open>toUpperCase\<close> or \<open>trim\<close>).\<close>

datatype field = Absent | Str string | Other

definition truthy :: "field \<Rightarrow> bool" where
  "truthy f = (case f of Absent \<Rightarrow> False | Str s \<Rightarrow> s \<noteq> [] | Other \<Rightarrow> True)"

text \<open>An entry of a \<open>faceDescriptor\<close> array, as far as the \<open>[Number]\<close> type of
  the schema distinguishes entries: \<open>Number r\<close> is an entry that it reads as the
  number \<open>r\<close>, \<open>Null\<close> is \<open>null\<close>, which it keeps as \<open>null\<close>, and
  \<open>Uncastable\<close> is an entry that it cannot read (a string that is not numeric, an
  object).\<close>

datatype entry = Number real | Null | Uncastable

text \<open>The \<open>faceDescriptor\<close> of a body: a falsy value, an array of any entries (an
  empty array is truthy), or a truthy value that is not an array.\<close>

datatype descriptor_field = NoDescriptor | Descriptor "entry list" | NotAnArray

text \<open>The \<open>confidence\<close> of a body: a falsy value, a value that the schema's
  \<open>Number\<close> type reads as a number (a non-zero number, or a numeric string such as
  the \<open>"93.8"\<close> the browser sends), or a value it cannot read.\<close>

datatype confidence_field = NoConfidence | Confidence real | BadConfidence

record register_request =
  studentId :: field
  name :: field
  course :: field
  faceDescriptor :: descriptor_field

record checkin_request =
  studentId :: field
  name :: field
  course :: field
  confidence :: confidence_field

subsection \<open>Documents, collections and responses\<close>

text \<open>The documents of \<open>studentSchema\<close> and \<open>attendanceSchema\<close>, without the
  generated \<open>_id\<close> and \<open>timestamps\<close>. Times are numbers read from a clock that
  the handlers take as an argument, and so is the date string \<open>today\<close>.\<close>

record student =
  studentId :: string
  name :: string
  course :: string
  faceDescriptor :: "real option list"
  registeredAt :: nat
  isActive :: bool

record attendance =
  studentId :: string
  name :: string
  course :: string
  checkInTime :: nat
  date :: string
  confidence :: "real option"

record database =
  Student :: "student list"
  Attendance :: "attendance list"

datatype payload =
    NoData
  | StudentData string string string nat
  | AttendanceData attendance
  | ErrorData js_error

record response =
  status :: nat
  success :: bool
  message :: string
  data :: payload

definition json :: "nat \<Rightarrow> bool \<Rightarrow> string \<Rightarrow> payload \<Rightarrow> response" where
  "json st ok msg d = \<lparr>status = st, success = ok, message = msg, data = d\<rparr>"

subsection \<open>Schemas and indexes\<close>

text \<open>\<open>studentId\<close> of \<open>studentSchema\<close> is declared \<open>unique: true\<close>;
  \<open>attendanceSchema.index({ studentId: 1, date: 1 })\<close> is declared without options,
  which makes an index that is not unique.\<close>

definition studentSchema_studentId_unique :: bool where
  "studentSchema_studentId_unique = True"

definition attendanceSchema_index_unique :: bool where
  "attendanceSchema_index_unique = False"

definition violates_unique :: "bool \<Rightarrow> ('a \<Rightarrow> 'k) \<Rightarrow> 'a \<Rightarrow> 'a list \<Rightarrow> bool" where
  "violates_unique unique key doc docs = (unique \<and> (\<exists>d\<in>set docs. key d = key doc))"

text \<open>The setters of \<open>studentSchema\<close> (\<open>trim\<close>, \<open>uppercase\<close>) run when a document
  is built and when a query filter is cast.\<close>

definition studentId_setters :: "string \<Rightarrow> string" where
  "studentId_setters v = trim (toUpperCase v)"

text \<open>The cast of the entries of a descriptor to the \<open>[Number]\<close> of the schema: an
  entry that cannot be read makes \<open>save\<close> reject the document, \<open>null\<close> entries
  are kept.\<close>

definition cast_descriptor :: "entry list \<Rightarrow> js_error + real option list" where
  "cast_descriptor d =
     (if Uncastable \<in> set d then Inl ValidationError
      else Inr (map (\<lambda>e. case e of Number r \<Rightarrow> Some r | _ \<Rightarrow> None) d))"

definition new_Student ::
  "string \<Rightarrow> string \<Rightarrow> string \<Rightarrow> real option list \<Rightarrow> nat \<Rightarrow> student" where
  "new_Student sid n c d now =
     \<lparr>student.studentId = studentId_setters sid, student.name = trim n,
      student.course = trim c, student.faceDescriptor = d,
      student.registeredAt = now, student.isActive = True\<rparr>"

definition Student_findOne :: "string \<Rightarrow> student list \<Rightarrow> student option" where
  "Student_findOne sid docs = find (\<lambda>s. student.studentId s = studentId_setters sid) docs"

text \<open>\<open>save\<close>: the \<open>required\<close> validators reject an empty string, then the insert
  is checked against the unique index.\<close>

definition Student_save :: "student \<Rightarrow> database \<Rightarrow> js_error + database" where
  "Student_save doc db =
     (if student.studentId doc = [] \<or> student.name doc = [] \<or> student.course doc = []
      then Inl ValidationError
      else if violates_unique studentSchema_studentId_unique student.studentId doc (Student db)
      then Inl DuplicateKeyError
      else Inr (db\<lparr>Student := Student db @ [doc]\<rparr>))"

definition Attendance_findOne :: "string \<Rightarrow> string \<Rightarrow> attendance list \<Rightarrow> attendance option" where
  "Attendance_findOne sid day docs =
     find (\<lambda>a. attendance.studentId a = sid \<and> attendance.date a = day) docs"

text \<open>The pair of fields that the index of \<open>attendanceSchema\<close> covers.\<close>

definition attendance_key :: "attendance \<Rightarrow> string \<times> string" where
  "attendance_key a = (attendance.studentId a, attendance.date a)"

text \<open>\<open>save\<close> of an attendance document: \<open>required\<close> on the four strings,
  \<open>min: 0\<close> and \<open>max: 100\<close> on a confidence that is not \<open>null\<close>, then the
  insert is checked against the index.\<close>

definition Attendance_save :: "attendance \<Rightarrow> database \<Rightarrow> js_error + database" where
  "Attendance_save doc db =
     (if attendance.studentId doc = [] \<or> attendance.name doc = []
         \<or> attendance.course doc = [] \<or> attendance.date doc = []
      then Inl ValidationError
      else if (case attendance.confidence doc of None \<Rightarrow> False | Some c \<Rightarrow> c < 0 \<or> 100 < c)
      then Inl ValidationError
      else if violates_unique attendanceSchema_index_unique attendance_key doc (Attendance db)
      then Inl DuplicateKeyError
      else Inr (db\<lparr>Attendance := Attendance db @ [doc]\<rparr>))"

subsection \<open>The handlers\<close>

text \<open>Whatever a handler throws inside its \<open>try\<close> block is answered with status 500
  by its \<open>catch\<close> block; nothing has been written then.\<close>

definition caught :: "string \<Rightarrow> js_error \<Rightarrow> database \<Rightarrow> response \<times> database" where
  "caught msg e db = (json 500 False msg (ErrorData e), db)"

text \<open>\<open>POST /api/students/register\<close>.\<close>

definition post_students_register ::
  "nat \<Rightarrow> register_request \<Rightarrow> database \<Rightarrow> response \<times> database" where
  "post_students_register now body db =
     (if \<not> truthy (register_request.studentId body) \<or> \<not> truthy (register_request.name body)
         \<or> \<not> truthy (register_request.course body)
         \<or> register_request.faceDescriptor body = NoDescriptor
      then (json 400 False
              ''All fields are required (studentId, name, course, faceDescriptor)'' NoData, db)
      else (case register_request.faceDescriptor body of
              Descriptor d \<Rightarrow>
                if length d \<noteq> 128
                then (json 400 False
                        ''Invalid face descriptor. Must be an array of 128 numbers'' NoData, db)
                else (case register_request.studentId body of
                        Str sid \<Rightarrow>
                          (case Student_findOne (toUpperCase sid) (Student db) of
                             Some existingStudent \<Rightarrow>
                               (json 409 False ''Student ID already registered'' NoData, db)
                           | None \<Rightarrow>
                               (case (register_request.name body, register_request.course body) of
                                  (Str n, Str c) \<Rightarrow>
                                    (case cast_descriptor d of
                                       Inl e \<Rightarrow> caught ''Error registering student'' e db
                                     | Inr v \<Rightarrow>
                                         (let doc = new_Student (toUpperCase sid) (trim n)
                                                      (trim c) v now
                                          in case Student_save doc db of
                                               Inl e \<Rightarrow> caught ''Error registering student'' e db
                                             | Inr db' \<Rightarrow>
                                                 (json 201 True ''Student registered successfully''
                                                    (StudentData (student.studentId doc)
                                                       (student.name doc) (student.course doc)
                                                       (student.registeredAt doc)),
                                                  db')))
                                | _ \<Rightarrow> caught ''Error registering student'' TypeError db))
                      | _ \<Rightarrow> caught ''Error registering student'' TypeError db)
            | _ \<Rightarrow>
                (json 400 False
                   ''Invalid face descriptor. Must be an array of 128 numbers'' NoData, db)))"

text \<open>\<open>findOneAndUpdate\<close>: the first document that matches is updated and returned.\<close>

fun findOneAndUpdate :: "('a \<Rightarrow> bool) \<Rightarrow> ('a \<Rightarrow> 'a) \<Rightarrow> 'a list \<Rightarrow> 'a option \<times> 'a list" where
  "findOneAndUpdate P f [] = (None, [])"
| "findOneAndUpdate P f (x # xs) =
     (if P x then (Some (f x), f x # xs)
      else (case findOneAndUpdate P f xs of (r, ys) \<Rightarrow> (r, x # ys)))"

text \<open>\<open>DELETE /api/students/:studentId\<close>, the soft delete.\<close>

definition delete_students ::
  "string \<Rightarrow> database \<Rightarrow> response \<times> database" where
  "delete_students param db =
     (case findOneAndUpdate
             (\<lambda>s. student.studentId s = studentId_setters (toUpperCase param))
             (\<lambda>s. s\<lparr>student.isActive := False\<rparr>) (Student db) of
        (None, _) \<Rightarrow> (json 404 False ''Student not found'' NoData, db)
      | (Some _, docs) \<Rightarrow>
          (json 200 True ''Student deleted successfully'' NoData, db\<lparr>Student := docs\<rparr>))"

text \<open>\<open>POST /api/attendance/checkin\<close>, in the two parts that its two \<open>await\<close>s
  separate: the validation and the lookup of today's record (which answers, or lets the
  handler go on), and the creation of the record.\<close>

definition checkin_lookup :: "string \<Rightarrow> checkin_request \<Rightarrow> database \<Rightarrow> response option" where
  "checkin_lookup today body db =
     (if \<not> truthy (checkin_request.studentId body) \<or> \<not> truthy (checkin_request.name body)
         \<or> \<not> truthy (checkin_request.course body)
      then Some (json 400 False ''Student information is required'' NoData)
      else (case checkin_request.studentId body of
              Str sid \<Rightarrow>
                (case Attendance_findOne (toUpperCase sid) today (Attendance db) of
                   Some existingAttendance \<Rightarrow>
                     Some (json 409 False ''Student already checked in today''
                             (AttendanceData existingAttendance))
                 | None \<Rightarrow> None)
            | _ \<Rightarrow> Some (json 500 False ''Error marking attendance'' (ErrorData TypeError))))"

definition checkin_create ::
  "string \<Rightarrow> nat \<Rightarrow> checkin_request \<Rightarrow> database \<Rightarrow> response \<times> database" where
  "checkin_create today now body db =
     (case (checkin_request.studentId body, checkin_request.name body,
            checkin_request.course body) of
        (Str sid, Str n, Str c) \<Rightarrow>
          (case checkin_request.confidence body of
             BadConfidence \<Rightarrow> caught ''Error marking attendance'' ValidationError db
           | cf \<Rightarrow>
               (let doc = \<lparr>attendance.studentId = toUpperCase sid, attendance.name = trim n,
                           attendance.course = trim c, attendance.checkInTime = now,
                           attendance.date = today,
                           attendance.confidence =
                             (case cf of Confidence r \<Rightarrow> Some r | _ \<Rightarrow> None)\<rparr>
                in case Attendance_save doc db of
                     Inl e \<Rightarrow> caught ''Error marking attendance'' e db
                   | Inr db' \<Rightarrow>
                       (json 201 True ''Attendance marked successfully'' (AttendanceData doc),
                        db')))
      | _ \<Rightarrow> caught ''Error marking attendance'' TypeError db)"

definition checkin_finish ::
  "string \<Rightarrow> nat \<Rightarrow> checkin_request \<Rightarrow> response option \<Rightarrow> database
     \<Rightarrow> response \<times> database" where
  "checkin_finish today now body seen db =
     (case seen of Some res \<Rightarrow> (res, db) | None \<Rightarrow> checkin_create today now body db)"

definition post_attendance_checkin ::
  "string \<Rightarrow> nat \<Rightarrow> checkin_request \<Rightarrow> database \<Rightarrow> response \<times> database" where
  "post_attendance_checkin today now body db =
     checkin_finish today now body (checkin_lookup today body db) db"

text \<open>Two check-in requests served at the same time: both lookups read the ledger
  before either record is created.\<close>

definition checkin_race ::
  "string \<Rightarrow> nat \<Rightarrow> checkin_request \<Rightarrow> nat \<Rightarrow> checkin_request \<Rightarrow> database
     \<Rightarrow> response \<times> response \<times> database" where
  "checkin_race today now1 body1 now2 body2 db =
     (let seen1 = checkin_lookup today body1 db;
          seen2 = checkin_lookup today body2 db;
          (res1, db1) = checkin_finish today now1 body1 seen1 db;
          (res2, db2) = checkin_finish today now2 body2 seen2 db1
      in (res1, res2, db2))"

subsection \<open>Sequences of requests\<close>

text \<open>The requests that write: registration, soft delete and check-in, each with the
  clock readings it is served at. (The administrative \<open>clear-all\<close> route, which
  empties both collections, is not part of the runs considered.)\<close>

datatype api_call =
    Register nat register_request
  | Delete string
  | Checkin string nat checkin_request

fun serve :: "api_call \<Rightarrow> database \<Rightarrow> response \<times> database" where
  "serve (Register now body) db = post_students_register now body db"
| "serve (Delete param) db = delete_students param db"
| "serve (Checkin today now body) db = post_attendance_checkin today now body db"

definition run :: "api_call list \<Rightarrow> database \<Rightarrow> database" where
  "run calls db = foldl (\<lambda>d call. snd (serve call d)) db calls"

text \<open>The number of ledger records of an identity key on a day.\<close>

definition ledger_count :: "string \<Rightarrow> string \<Rightarrow> database \<Rightarrow> nat" where
  "ledger_count sid day db =
     length (filter (\<lambda>a. attendance.studentId a = sid \<and> attendance.date a = day) (Attendance db))"

section \<open>Sample data\<close>

text \<open>The inputs of the worked instances below: an enrolled student as the browser
  holds it, the check-in request that the browser sends for it, and the bodies that the
  server receives for a student \<open>s1\<close>, on a server that holds no documents.\<close>

definition enrolled :: "string \<Rightarrow> num list \<Rightarrow> student_descriptor" where
  "enrolled sid v =
     \<lparr>id' = sid, student_descriptor.name = ''Ann'', student_descriptor.course = ''Math'',
      faceData = v\<rparr>"

definition matched :: "string \<Rightarrow> string \<Rightarrow> verify_outcome" where
  "matched sid c =
     PostCheckin \<lparr>checkin_body.studentId = sid, checkin_body.name = ''Ann'',
       checkin_body.course = ''Math'', checkin_body.confidence = c\<rparr>"

definition checkin_s1 :: "confidence_field \<Rightarrow> checkin_request" where
  "checkin_s1 c =
     \<lparr>checkin_request.studentId = Str ''s1'', checkin_request.name = Str ''Ann'',
      checkin_request.course = Str ''Math'', checkin_request.confidence = c\<rparr>"

definition register_s1 :: "descriptor_field \<Rightarrow> register_request" where
  "register_s1 d =
     \<lparr>register_request.studentId = Str ''s1'', register_request.name = Str ''Ann'',
      register_request.course = Str ''Math'', register_request.faceDescriptor = d\<rparr>"

definition no_documents :: database where
  "no_documents = \<lparr>Student = [], Attendance = []\<rparr>"

section \<open>Evaluation rules and auxiliary facts\<close>

lemmas eval_strings = toUpperCase_def upper_char_def trim_def is_space_def Let_def

lemmas eval_client = startVerify_def bestMatchOf_def match_step_def euclideanDistance_def
  elem_def toFixed1_def toFixed1_tenths_def digits.simps digit_char_def
  registerStudent_def avgDescriptor_def enrolled_def matched_def

lemmas eval_server = json_def truthy_def caught_def violates_unique_def
  studentSchema_studentId_unique_def attendanceSchema_index_unique_def
  studentId_setters_def cast_descriptor_def new_Student_def Student_findOne_def Student_save_def
  attendance_key_def Attendance_findOne_def Attendance_save_def
  post_students_register_def delete_students_def
  checkin_lookup_def checkin_create_def checkin_finish_def post_attendance_checkin_def
  checkin_race_def run_def ledger_count_def
  checkin_s1_def register_s1_def no_documents_def

subsection \<open>Numbers and distances\<close>

lemma num_add_NaN [simp]: "num_add x NaN = NaN"
  by (cases x) simp_all

lemma num_less_trans: "num_less a b \<Longrightarrow> num_less b c \<Longrightarrow> num_less a c"
  by (cases a; cases b; cases c) simp_all

lemma num_less_irrefl [simp]: "\<not> num_less a a"
  by (cases a) simp_all

lemma num_less_Num: "num_less a (Num t) \<Longrightarrow> \<exists>r. a = Num r \<and> r < t"
  by (cases a) simp_all

lemma num_sqrt_Num: "num_sqrt v = Num d \<Longrightarrow> 0 \<le> d"
  by (cases v) (auto split: if_splits)

lemma euclideanDistance_nonneg: "euclideanDistance a b = Num d \<Longrightarrow> 0 \<le> d"
  unfolding euclideanDistance_def by (rule num_sqrt_Num)

text \<open>The loop of \<open>euclideanDistance\<close> on number vectors, the probe no longer than
  the other vector: by induction on the probe from its end.\<close>

lemma foldl_squares:
  "length p \<le> length e \<Longrightarrow>
   foldl (\<lambda>sum (val, i). num_add sum (num_pow2 (num_sub val (elem (map Num e) i))))
      (Num 0) (zip (map Num p) [0..<length p])
     = Num (\<Sum>i<length p. (p ! i - e ! i)\<^sup>2)"
proof (induction p rule: rev_induct)
  case Nil
  show ?case by simp
next
  case (snoc x q)
  have le: "length q \<le> length e" and lt: "length q < length e"
    using snoc.prems by simp_all
  have z: "zip (map Num (q @ [x])) [0..<length (q @ [x])]
      = zip (map Num q) [0..<length q] @ [(Num x, length q)]"
    by simp
  have s: "(\<Sum>i<length q. ((q @ [x]) ! i - e ! i)\<^sup>2) = (\<Sum>i<length q. (q ! i - e ! i)\<^sup>2)"
    by (rule sum.cong) (simp_all add: nth_append)
  show ?case
    unfolding z foldl_append
    using snoc.IH [OF le] lt by (simp add: elem_def s)
qed

lemma euclideanDistance_prefix:
  assumes "length p \<le> length e"
  shows "euclideanDistance (map Num p) (map Num e) = Num (sqrt (\<Sum>i<length p. (p ! i - e ! i)\<^sup>2))"
proof -
  have "0 \<le> (\<Sum>i<length p. (p ! i - e ! i)\<^sup>2)"
    by (rule sum_nonneg) simp
  then show ?thesis
    using foldl_squares [OF assms] by (simp add: euclideanDistance_def)
qed

lemma foldl_squares_NaN:
  "foldl (\<lambda>sum (val, i). num_add sum (num_pow2 (num_sub val (elem b i)))) NaN xs = NaN"
  by (induction xs) (simp_all split: prod.splits)

lemma foldl_squares_past_end:
  "\<exists>(v, i)\<in>set xs. length b \<le> i \<Longrightarrow>
   foldl (\<lambda>sum (val, i). num_add sum (num_pow2 (num_sub val (elem b i)))) acc xs = NaN"
proof (induction xs arbitrary: acc)
  case Nil
  then show ?case by simp
next
  case (Cons x xs)
  obtain v i where x: "x = (v, i)" by (cases x)
  show ?case
  proof (cases "length b \<le> i")
    case True
    then have "num_pow2 (num_sub v (elem b i)) = NaN"
      by (cases v) (simp_all add: elem_def)
    then show ?thesis
      by (simp add: x foldl_squares_NaN)
  next
    case False
    with Cons.prems x have "\<exists>(v, i)\<in>set xs. length b \<le> i" by auto
    then show ?thesis
      by (simp add: Cons.IH)
  qed
qed

lemma euclideanDistance_longer_probe:
  assumes "length b < length a"
  shows "euclideanDistance a b = NaN"
proof -
  have "(a ! length b, length b) \<in> set (zip a [0..<length a])"
    using assms by (auto simp: set_zip)
  then have "\<exists>(v, i)\<in>set (zip a [0..<length a]). length b \<le> i"
    by (intro bexI [of _ "(a ! length b, length b)"]) simp_all
  then show ?thesis
    by (simp add: euclideanDistance_def foldl_squares_past_end)
qed

lemma foldl_add_elem:
  "\<forall>s\<in>set ss. i < length s \<Longrightarrow>
   foldl (\<lambda>acc sample. num_add acc (elem sample i)) (Num a) (map (map Num) ss)
     = Num (a + (\<Sum>s\<leftarrow>ss. s ! i))"
  by (induction ss arbitrary: a) (simp_all add: elem_def add.assoc)

lemma toFixed1_tenths_close:
  assumes "0 \<le> x"
  shows "\<bar>real (toFixed1_tenths x) / 10 - x\<bar> \<le> 1 / 20"
proof -
  let ?n = "\<lfloor>x * 10 + 1 / 2\<rfloor>"
  have nonneg: "0 \<le> ?n" using assms by simp
  have t: "real (toFixed1_tenths x) = of_int ?n"
    using assms nonneg by (simp add: toFixed1_tenths_def)
  have "of_int ?n \<le> x * 10 + 1 / 2" "x * 10 + 1 / 2 < of_int ?n + 1"
    by linarith+
  then have "- (1 / 20) \<le> of_int ?n / 10 - x" "of_int ?n / 10 - x \<le> 1 / 20"
    by linarith+
  then show ?thesis
    unfolding t by (intro abs_leI) linarith+
qed

subsection \<open>The matching loop\<close>

text \<open>The invariant of the loop, by induction on the students seen so far: while
  \<open>bestMatch\<close> is \<open>null\<close>, \<open>bestDistance\<close> is the threshold and no student seen
  is below it; afterwards \<open>bestMatch\<close> is a student seen, at distance
  \<open>bestDistance\<close>, below the threshold, and no student seen is closer.\<close>

lemma bestMatchOf_invariant:
  "case bestMatchOf probe students of (bestMatch, bestDistance) \<Rightarrow>
     (bestMatch = None \<longrightarrow> bestDistance = Num (6 / 10)
        \<and> (\<forall>s\<in>set students. \<not> num_less (euclideanDistance probe (faceData s)) (Num (6 / 10))))
     \<and> (\<forall>m. bestMatch = Some m \<longrightarrow> m \<in> set students
        \<and> euclideanDistance probe (faceData m) = bestDistance
        \<and> num_less bestDistance (Num (6 / 10))
        \<and> (\<forall>s\<in>set students. \<not> num_less (euclideanDistance probe (faceData s)) bestDistance))"
proof (induction students rule: rev_induct)
  case Nil
  show ?case by (simp add: bestMatchOf_def)
next
  case (snoc x xs)
  obtain bm bd where old: "bestMatchOf probe xs = (bm, bd)"
    by (cases "bestMatchOf probe xs")
  have step: "bestMatchOf probe (xs @ [x]) = match_step probe (bm, bd) x"
    using old by (simp add: bestMatchOf_def)
  let ?d = "euclideanDistance probe (faceData x)"
  from snoc.IH old have
    none: "bm = None \<Longrightarrow> bd = Num (6 / 10)" and
    none_all: "bm = None \<Longrightarrow> \<forall>s\<in>set xs. \<not> num_less (euclideanDistance probe (faceData s)) (Num (6 / 10))" and
    some: "\<And>m. bm = Some m \<Longrightarrow> m \<in> set xs \<and> euclideanDistance probe (faceData m) = bd
        \<and> num_less bd (Num (6 / 10))
        \<and> (\<forall>s\<in>set xs. \<not> num_less (euclideanDistance probe (faceData s)) bd)"
    by simp_all
  have below: "\<forall>s\<in>set xs. \<not> num_less (euclideanDistance probe (faceData s)) bd"
    using none none_all some by (cases bm) auto
  show ?case
  proof (cases "num_less ?d bd")
    case True
    have "num_less ?d (Num (6 / 10))"
    proof (cases bm)
      case None
      with none True show ?thesis by simp
    next
      case (Some m)
      with some True show ?thesis by (blast intro: num_less_trans)
    qed
    moreover have "\<forall>s\<in>set xs. \<not> num_less (euclideanDistance probe (faceData s)) ?d"
      using below True by (blast intro: num_less_trans)
    ultimately show ?thesis
      using True by (simp add: step match_step_def)
  next
    case False
    then have same: "match_step probe (bm, bd) x = (bm, bd)"
      by (simp add: match_step_def)
    show ?thesis
      unfolding step same using none none_all some False by auto
  qed
qed

lemma bestMatchOf_None:
  "fst (bestMatchOf probe students) = None \<longleftrightarrow>
     (\<forall>s\<in>set students. \<not> num_less (euclideanDistance probe (faceData s)) (Num (6 / 10)))"
proof -
  obtain bm bd where b: "bestMatchOf probe students = (bm, bd)"
    by (cases "bestMatchOf probe students")
  show ?thesis
  proof (cases bm)
    case None
    then show ?thesis
      using bestMatchOf_invariant [where probe = probe and students = students] b by simp
  next
    case (Some m)
    then have "m \<in> set students" "num_less (euclideanDistance probe (faceData m)) (Num (6 / 10))"
      using bestMatchOf_invariant [where probe = probe and students = students] b by simp_all
    then show ?thesis using Some b by auto
  qed
qed

lemma bestMatchOf_Some:
  assumes "bestMatchOf probe students = (Some m, bd)"
  shows "m \<in> set students" "euclideanDistance probe (faceData m) = bd"
    "num_less bd (Num (6 / 10))"
    "\<forall>s\<in>set students. \<not> num_less (euclideanDistance probe (faceData s)) bd"
  using bestMatchOf_invariant [where probe = probe and students = students] assms by simp_all

lemma startVerify_PostCheckin:
  "startVerify (probe # rest) students = PostCheckin req \<longleftrightarrow>
     (\<exists>m bd. bestMatchOf probe students = (Some m, bd) \<and>
        req = \<lparr>checkin_body.studentId = id' m,
                checkin_body.name = student_descriptor.name m,
                checkin_body.course = student_descriptor.course m,
                checkin_body.confidence =
                   num_toFixed1 (num_mul (num_sub (Num 1) bd) (Num 100))\<rparr>)"
proof (cases "students = []")
  case True
  then show ?thesis by (simp add: startVerify_def bestMatchOf_def)
next
  case False
  then show ?thesis
    by (auto simp: startVerify_def split: prod.splits option.splits)
qed

lemma startVerify_NotRecognized:
  "startVerify (probe # rest) students = NotRecognized \<longleftrightarrow>
     students \<noteq> [] \<and> fst (bestMatchOf probe students) = None"
  by (auto simp: startVerify_def split: prod.splits option.splits)

lemma startVerify_NoStudents:
  "startVerify (probe # rest) students = NoStudents \<longleftrightarrow> students = []"
  by (auto simp: startVerify_def split: prod.splits option.splits)

subsection \<open>The check-in handler\<close>

lemma find_append:
  "find P (xs @ ys) = (case find P xs of None \<Rightarrow> find P ys | Some x \<Rightarrow> Some x)"
  by (induction xs) simp_all

lemma toUpperCase_Nil [simp]: "toUpperCase s = [] \<longleftrightarrow> s = []"
  by (simp add: toUpperCase_def)

lemma ledger_count_0:
  "ledger_count sid day db = 0 \<longleftrightarrow> Attendance_findOne sid day (Attendance db) = None"
  by (auto simp: ledger_count_def Attendance_findOne_def find_None_iff filter_empty_conv)

lemma checkin_create_effect:
  assumes "checkin_create today now body db = (res, db')"
  shows "(status res = 500 \<and> db' = db) \<or>
     (\<exists>sid doc. checkin_request.studentId body = Str sid
        \<and> attendance.studentId doc = toUpperCase sid \<and> attendance.date doc = today
        \<and> attendance.checkInTime doc = now
        \<and> db' = db\<lparr>Attendance := Attendance db @ [doc]\<rparr>
        \<and> res = json 201 True ''Attendance marked successfully'' (AttendanceData doc))"
  using assms
  by (auto simp: checkin_create_def Attendance_save_def caught_def json_def Let_def
      split: field.splits confidence_field.splits if_splits)

lemma checkin_create_again:
  assumes "checkin_create today now body db = (res, db')" "status res = 201"
  shows "\<exists>sid doc. checkin_request.studentId body = Str sid
        \<and> attendance.studentId doc = toUpperCase sid \<and> attendance.date doc = today
        \<and> checkin_create today now2 body db2 =
             (json 201 True ''Attendance marked successfully'' (AttendanceData doc),
              db2\<lparr>Attendance := Attendance db2 @ [doc]\<rparr>)"
  using assms
  by (auto simp: checkin_create_def Attendance_save_def caught_def json_def Let_def
      violates_unique_def attendanceSchema_index_unique_def
      split: field.splits confidence_field.splits if_splits)

lemma checkin_created:
  assumes "checkin_request.studentId body = Str sid" "sid \<noteq> []"
    and "checkin_request.name body = Str n" "trim n \<noteq> []"
    and "checkin_request.course body = Str c" "trim c \<noteq> []"
    and "today \<noteq> []"
    and "checkin_request.confidence body = NoConfidence \<and> conf = None
          \<or> checkin_request.confidence body = Confidence r \<and> 0 \<le> r \<and> r \<le> 100 \<and> conf = Some r"
  shows "checkin_create today now body db =
          (json 201 True ''Attendance marked successfully''
             (AttendanceData \<lparr>attendance.studentId = toUpperCase sid, attendance.name = trim n,
                attendance.course = trim c, attendance.checkInTime = now,
                attendance.date = today, attendance.confidence = conf\<rparr>),
           db\<lparr>Attendance := Attendance db @
                [\<lparr>attendance.studentId = toUpperCase sid, attendance.name = trim n,
                  attendance.course = trim c, attendance.checkInTime = now,
                  attendance.date = today, attendance.confidence = conf\<rparr>]\<rparr>)"
  using assms
  by (auto simp: checkin_create_def Attendance_save_def violates_unique_def
      attendanceSchema_index_unique_def Let_def)

lemma checkin_lookup_None:
  "checkin_lookup today body db = None \<longleftrightarrow>
     truthy (checkin_request.studentId body) \<and> truthy (checkin_request.name body)
     \<and> truthy (checkin_request.course body)
     \<and> (\<exists>sid. checkin_request.studentId body = Str sid
           \<and> Attendance_findOne (toUpperCase sid) today (Attendance db) = None)"
  by (auto simp: checkin_lookup_def split: field.splits option.splits)

lemma checkin_lookup_Some:
  "checkin_lookup today body db = Some res \<Longrightarrow> status res \<in> {400, 409, 500}"
  by (auto simp: checkin_lookup_def json_def split: field.splits option.splits if_splits)

lemma checkin_effect:
  assumes "post_attendance_checkin today now body db = (res, db')"
  shows "(status res \<in> {400, 409, 500} \<and> db' = db) \<or>
     (\<exists>sid doc. checkin_request.studentId body = Str sid
        \<and> Attendance_findOne (toUpperCase sid) today (Attendance db) = None
        \<and> attendance.studentId doc = toUpperCase sid \<and> attendance.date doc = today
        \<and> attendance.checkInTime doc = now
        \<and> db' = db\<lparr>Attendance := Attendance db @ [doc]\<rparr>
        \<and> res = json 201 True ''Attendance marked successfully'' (AttendanceData doc))"
proof (cases "checkin_lookup today body db")
  case None
  then have c: "checkin_create today now body db = (res, db')"
    using assms by (simp add: post_attendance_checkin_def checkin_finish_def)
  from None obtain sid0 where s0: "checkin_request.studentId body = Str sid0"
    "Attendance_findOne (toUpperCase sid0) today (Attendance db) = None"
    by (auto simp: checkin_lookup_None)
  from checkin_create_effect [OF c] s0 show ?thesis
    by auto
next
  case (Some r)
  then have "res = r" "db' = db"
    using assms by (simp_all add: post_attendance_checkin_def checkin_finish_def)
  with checkin_lookup_Some [OF Some] show ?thesis by simp
qed

lemma checkin_already:
  assumes "checkin_request.studentId body = Str sid"
    and "truthy (checkin_request.studentId body)"
    and "truthy (checkin_request.name body)" and "truthy (checkin_request.course body)"
    and "Attendance_findOne (toUpperCase sid) today (Attendance db) = Some doc"
  shows "post_attendance_checkin today now body db =
      (json 409 False ''Student already checked in today'' (AttendanceData doc), db)"
  using assms
  by (simp add: post_attendance_checkin_def checkin_finish_def checkin_lookup_def)

lemma checkin_missing:
  assumes "\<not> truthy (checkin_request.studentId body) \<or> \<not> truthy (checkin_request.name body)
     \<or> \<not> truthy (checkin_request.course body)"
  shows "post_attendance_checkin today now body db =
      (json 400 False ''Student information is required'' NoData, db)"
  using assms
  by (auto simp: post_attendance_checkin_def checkin_finish_def checkin_lookup_def)

lemma checkin_lookup_Student [simp]:
  "checkin_lookup today body (db\<lparr>Student := S\<rparr>) = checkin_lookup today body db"
  by (simp add: checkin_lookup_def split: field.splits)

lemma checkin_create_Student:
  "checkin_create today now body (db\<lparr>Student := S\<rparr>) =
     (fst (checkin_create today now body db), snd (checkin_create today now body db)\<lparr>Student := S\<rparr>)"
  by (simp add: checkin_create_def Attendance_save_def caught_def Let_def
      split: field.splits confidence_field.splits)

lemma checkin_ignores_Student:
  "post_attendance_checkin today now body (db\<lparr>Student := S\<rparr>) =
     (fst (post_attendance_checkin today now body db),
      snd (post_attendance_checkin today now body db)\<lparr>Student := S\<rparr>)"
  by (simp add: post_attendance_checkin_def checkin_finish_def checkin_create_Student
      split: option.splits)

lemma checkin_Student [simp]:
  "Student (snd (post_attendance_checkin today now body db)) = Student db"
  by (simp add: post_attendance_checkin_def checkin_finish_def checkin_create_def
      Attendance_save_def caught_def Let_def
      split: option.splits field.splits confidence_field.splits sum.splits)

subsection \<open>The student handlers\<close>

lemma register_Attendance [simp]:
  "Attendance (snd (post_students_register now body db)) = Attendance db"
  by (simp add: post_students_register_def Student_save_def caught_def Let_def
      split: descriptor_field.splits field.splits option.splits sum.splits)

lemma delete_Attendance [simp]:
  "Attendance (snd (delete_students param db)) = Attendance db"
  by (simp add: delete_students_def split: prod.splits option.splits)

lemma findOneAndUpdate_keys:
  "(\<And>x. key (f x) = key x) \<Longrightarrow> map key (snd (findOneAndUpdate P f xs)) = map key xs"
proof (induction xs)
  case Nil
  show ?case by simp
next
  case (Cons x xs)
  obtain r ys where p: "findOneAndUpdate P f xs = (r, ys)"
    by (cases "findOneAndUpdate P f xs")
  with Cons show ?case by simp
qed

lemma delete_keys [simp]:
  "map student.studentId (Student (snd (delete_students param db))) = map student.studentId (Student db)"
proof -
  have "map student.studentId
          (snd (findOneAndUpdate
             (\<lambda>s. student.studentId s = studentId_setters (toUpperCase param))
             (\<lambda>s. s\<lparr>student.isActive := False\<rparr>) (Student db)))
        = map student.studentId (Student db)"
    by (rule findOneAndUpdate_keys) simp
  moreover obtain r ys where
    "findOneAndUpdate (\<lambda>s. student.studentId s = studentId_setters (toUpperCase param))
             (\<lambda>s. s\<lparr>student.isActive := False\<rparr>) (Student db) = (r, ys)"
    by (cases "findOneAndUpdate (\<lambda>s. student.studentId s = studentId_setters (toUpperCase param))
             (\<lambda>s. s\<lparr>student.isActive := False\<rparr>) (Student db)")
  ultimately show ?thesis
    by (cases r) (simp_all add: delete_students_def)
qed

lemma new_Student_studentId [simp]:
  "student.studentId (new_Student sid n c d now) = studentId_setters sid"
  by (simp add: new_Student_def)

lemma register_effect:
  assumes "post_students_register now body db = (res, db')"
  shows "(status res \<in> {400, 409, 500} \<and> db' = db) \<or>
     (\<exists>sid n c d. register_request.studentId body = Str sid
        \<and> db' = db\<lparr>Student := Student db @ [new_Student (toUpperCase sid) n c d now]\<rparr>
        \<and> status res = 201)"
  using assms
  by (auto simp: post_students_register_def Student_save_def caught_def json_def Let_def
      split: descriptor_field.splits field.splits option.splits sum.splits if_splits)

lemma register_conflict:
  assumes "register_request.studentId body = Str sid" "sid \<noteq> []"
    and "truthy (register_request.name body)" "truthy (register_request.course body)"
    and "register_request.faceDescriptor body = Descriptor d" "length d = 128"
    and "studentId_setters (toUpperCase sid) \<in> student.studentId ` set (Student db)"
  shows "post_students_register now body db =
     (json 409 False ''Student ID already registered'' NoData, db)"
proof -
  have "Student_findOne (toUpperCase sid) (Student db) \<noteq> None"
    using assms(7) by (auto simp: Student_findOne_def find_None_iff)
  then obtain s where "Student_findOne (toUpperCase sid) (Student db) = Some s"
    by auto
  then show ?thesis
    using assms by (simp add: post_students_register_def truthy_def)
qed

subsection \<open>Sequences of requests\<close>

text \<open>A record found in the ledger stays the one found, and the count of its pair
  stays, whatever request is served next: a check-in that adds a record has found none
  for its own pair, so its pair is another one.\<close>

lemma serve_keeps_record:
  assumes "Attendance_findOne k day (Attendance db) = Some r"
  shows "Attendance_findOne k day (Attendance (snd (serve call db))) = Some r
     \<and> ledger_count k day (snd (serve call db)) = ledger_count k day db"
proof (cases call)
  case (Register now body)
  then show ?thesis using assms by (simp add: ledger_count_def)
next
  case (Delete param)
  then show ?thesis using assms by (simp add: ledger_count_def)
next
  case (Checkin today now body)
  obtain res db' where e: "post_attendance_checkin today now body db = (res, db')"
    by (cases "post_attendance_checkin today now body db")
  from checkin_effect [OF e] show ?thesis
  proof
    assume "status res \<in> {400, 409, 500} \<and> db' = db"
    then show ?thesis using assms e Checkin by simp
  next
    assume "\<exists>sid doc. checkin_request.studentId body = Str sid
        \<and> Attendance_findOne (toUpperCase sid) today (Attendance db) = None
        \<and> attendance.studentId doc = toUpperCase sid \<and> attendance.date doc = today
        \<and> attendance.checkInTime doc = now
        \<and> db' = db\<lparr>Attendance := Attendance db @ [doc]\<rparr>
        \<and> res = json 201 True ''Attendance marked successfully'' (AttendanceData doc)"
    then obtain sid doc where
      none: "Attendance_findOne (toUpperCase sid) today (Attendance db) = None" and
      doc: "attendance.studentId doc = toUpperCase sid" "attendance.date doc = today" and
      db': "db' = db\<lparr>Attendance := Attendance db @ [doc]\<rparr>"
      by blast
    have "\<not> (attendance.studentId doc = k \<and> attendance.date doc = day)"
      using none assms doc by auto
    then show ?thesis
      using assms e Checkin db'
      by (simp add: ledger_count_def Attendance_findOne_def find_append)
  qed
qed

lemma run_keeps_record:
  "Attendance_findOne k day (Attendance db) = Some r \<Longrightarrow>
   Attendance_findOne k day (Attendance (run calls db)) = Some r
     \<and> ledger_count k day (run calls db) = ledger_count k day db"
proof (induction calls arbitrary: db)
  case Nil
  then show ?case by (simp add: run_def)
next
  case (Cons c cs)
  have r: "run (c # cs) db = run cs (snd (serve c db))"
    by (simp add: run_def)
  from serve_keeps_record [OF Cons.prems, of c] Cons.IH [of "snd (serve c db)"]
  show ?case unfolding r by simp
qed

text \<open>A stored identity key stays stored: registration appends, the soft delete only
  clears \<open>isActive\<close>, a check-in does not touch the students.\<close>

lemma serve_keeps_key:
  assumes "k \<in> student.studentId ` set (Student db)"
  shows "k \<in> student.studentId ` set (Student (snd (serve call db)))"
proof (cases call)
  case (Register now body)
  obtain res db' where e: "post_students_register now body db = (res, db')"
    by (cases "post_students_register now body db")
  from register_effect [OF e] assms show ?thesis
    unfolding Register by (auto simp: e)
next
  case (Delete param)
  have "set (map student.studentId (Student (snd (delete_students param db))))
      = set (map student.studentId (Student db))"
    by (simp only: delete_keys)
  then have "student.studentId ` set (Student (snd (delete_students param db)))
      = student.studentId ` set (Student db)"
    by (simp only: set_map)
  then show ?thesis using assms Delete by simp
next
  case (Checkin today now body)
  then show ?thesis using assms by simp
qed

lemma run_keeps_key:
  "k \<in> student.studentId ` set (Student db) \<Longrightarrow>
   k \<in> student.studentId ` set (Student (run calls db))"
proof (induction calls arbitrary: db)
  case Nil
  then show ?case by (simp add: run_def)
next
  case (Cons c cs)
  have r: "run (c # cs) db = run cs (snd (serve c db))"
    by (simp add: run_def)
  show ?case
    unfolding r by (rule Cons.IH) (rule serve_keeps_key [OF Cons.prems])
qed

section \<open>The claims\<close>

subsection \<open>C1: a second check-in on the same day\<close>

text \<open>
  Claim C1 says that every check-in after the first one for an identity key and a day
  is answered with 409 and that the count of the pair stays 1. As stated, for any two
  calls, it does not hold: when the second check-in of \<open>s1\<close> is received while the
  first one is still being served, so that its lookup runs before the record of the
  first is created, the second call is answered with 201 as well, and the ledger then
  counts two records for \<open>(S1, 11/3/2026)\<close>.
\<close>

theorem second_checkin_accepted_in_race:
  "status (fst (checkin_race ''11/3/2026'' 1 (checkin_s1 NoConfidence) 2
                  (checkin_s1 (Confidence 50)) no_documents)) = 201
   \<and> status (fst (snd (checkin_race ''11/3/2026'' 1 (checkin_s1 NoConfidence) 2
                  (checkin_s1 (Confidence 50)) no_documents))) = 201
   \<and> ledger_count ''S1'' ''11/3/2026''
        (snd (snd (checkin_race ''11/3/2026'' 1 (checkin_s1 NoConfidence) 2
                  (checkin_s1 (Confidence 50)) no_documents))) = 2"
  by (simp add: eval_server eval_strings)

text \<open>
  Claim C1, amended: for requests served one after another, each answered before the
  next is received. Once a check-in for an identity key has been answered with 201 on a
  day, the ledger holds exactly one record for that key and day, and it keeps holding
  exactly that one through any further registrations, soft deletes and check-ins. Every
  later check-in on that day for the same key (compared in upper case) leaves the
  database as it was; sent with a name and a course, as the browser sends it, it is
  answered with 409 and the record of the first call.
\<close>

theorem checkin_idempotent:
  assumes first: "post_attendance_checkin today now body db = (res, db')" "status res = 201"
    and sid: "checkin_request.studentId body = Str sid"
    and again: "checkin_request.studentId body2 = Str sid2" "toUpperCase sid2 = toUpperCase sid"
  shows "\<exists>doc. data res = AttendanceData doc
      \<and> attendance.studentId doc = toUpperCase sid \<and> attendance.date doc = today
      \<and> Attendance db' = Attendance db @ [doc]
      \<and> ledger_count (toUpperCase sid) today db = 0
      \<and> ledger_count (toUpperCase sid) today db' = 1
      \<and> ledger_count (toUpperCase sid) today (run calls db') = 1
      \<and> snd (post_attendance_checkin today now2 body2 (run calls db')) = run calls db'
      \<and> (truthy (checkin_request.name body2) \<and> truthy (checkin_request.course body2) \<longrightarrow>
           post_attendance_checkin today now2 body2 (run calls db') =
             (json 409 False ''Student already checked in today'' (AttendanceData doc),
              run calls db'))"
proof -
  from checkin_effect [OF first(1)] first(2) sid obtain doc where
    none: "Attendance_findOne (toUpperCase sid) today (Attendance db) = None" and
    doc: "attendance.studentId doc = toUpperCase sid" "attendance.date doc = today" and
    db': "db' = db\<lparr>Attendance := Attendance db @ [doc]\<rparr>" and
    res: "res = json 201 True ''Attendance marked successfully'' (AttendanceData doc)"
    by auto
  have c0: "ledger_count (toUpperCase sid) today db = 0"
    using none by (simp add: ledger_count_0)
  have found: "Attendance_findOne (toUpperCase sid) today (Attendance db') = Some doc"
    using none doc by (simp add: db' Attendance_findOne_def find_append)
  have c1: "ledger_count (toUpperCase sid) today db' = 1"
    using c0 doc by (simp add: db' ledger_count_def)
  note later = run_keeps_record [OF found, of calls]
  have ne: "sid \<noteq> []"
    using first sid by (auto simp: post_attendance_checkin_def checkin_finish_def
        checkin_lookup_def json_def truthy_def split: if_splits)
  have "length sid2 = length sid"
    using arg_cong [OF again(2), of length] by (simp add: toUpperCase_def)
  then have t2: "truthy (checkin_request.studentId body2)"
    using ne again(1) by (auto simp: truthy_def)
  have refused: "post_attendance_checkin today now2 body2 (run calls db') =
           (json 409 False ''Student already checked in today'' (AttendanceData doc),
            run calls db')"
    if "truthy (checkin_request.name body2) \<and> truthy (checkin_request.course body2)"
    using later again t2 that by (intro checkin_already [where sid = sid2]) simp_all
  have unchanged: "snd (post_attendance_checkin today now2 body2 (run calls db')) = run calls db'"
  proof (cases "truthy (checkin_request.name body2) \<and> truthy (checkin_request.course body2)")
    case True
    then show ?thesis by (simp add: refused)
  next
    case False
    then show ?thesis by (auto simp: checkin_missing)
  qed
  show ?thesis
    using res doc c0 c1 later db' refused unchanged
    by (intro exI [of _ doc]) (simp add: json_def)
qed

text \<open>An instance of the amended C1: \<open>s1\<close> checks in, another student checks in and \<open>s1\<close> is
  soft-deleted, then \<open>S1\<close> checks in again.\<close>

theorem checkin_idempotent_witness:
  "status (fst (post_attendance_checkin ''11/3/2026'' 1 (checkin_s1 NoConfidence) no_documents)) = 201
   \<and> checkin_request.studentId (checkin_s1 NoConfidence) = Str ''s1''
   \<and> checkin_request.studentId
        ((checkin_s1 (Confidence 50))\<lparr>checkin_request.studentId := Str ''S1''\<rparr>) = Str ''S1''
   \<and> toUpperCase ''S1'' = toUpperCase ''s1''
   \<and> truthy (checkin_request.name
        ((checkin_s1 (Confidence 50))\<lparr>checkin_request.studentId := Str ''S1''\<rparr>))
   \<and> truthy (checkin_request.course
        ((checkin_s1 (Confidence 50))\<lparr>checkin_request.studentId := Str ''S1''\<rparr>))
   \<and> ledger_count (toUpperCase ''s1'') ''11/3/2026''
        (run [Checkin ''11/3/2026'' 2
                ((checkin_s1 NoConfidence)\<lparr>checkin_request.studentId := Str ''s2''\<rparr>),
              Delete ''s1'']
           (snd (post_attendance_checkin ''11/3/2026'' 1 (checkin_s1 NoConfidence) no_documents)))
       = 1
   \<and> status (fst (post_attendance_checkin ''11/3/2026'' 9
        ((checkin_s1 (Confidence 50))\<lparr>checkin_request.studentId := Str ''S1''\<rparr>)
        (run [Checkin ''11/3/2026'' 2
                ((checkin_s1 NoConfidence)\<lparr>checkin_request.studentId := Str ''s2''\<rparr>),
              Delete ''s1'']
           (snd (post_attendance_checkin ''11/3/2026'' 1 (checkin_s1 NoConfidence) no_documents)))))
       = 409
   \<and> snd (post_attendance_checkin ''11/3/2026'' 9
        ((checkin_s1 (Confidence 50))\<lparr>checkin_request.studentId := Str ''S1''\<rparr>)
        (run [Checkin ''11/3/2026'' 2
                ((checkin_s1 NoConfidence)\<lparr>checkin_request.studentId := Str ''s2''\<rparr>),
              Delete ''s1'']
           (snd (post_attendance_checkin ''11/3/2026'' 1 (checkin_s1 NoConfidence) no_documents))))
       = run [Checkin ''11/3/2026'' 2
                ((checkin_s1 NoConfidence)\<lparr>checkin_request.studentId := Str ''s2''\<rparr>),
              Delete ''s1'']
           (snd (post_attendance_checkin ''11/3/2026'' 1 (checkin_s1 NoConfidence) no_documents))"
proof -
  have a: "post_attendance_checkin ''11/3/2026'' 1 (checkin_s1 NoConfidence) no_documents
      = (fst (post_attendance_checkin ''11/3/2026'' 1 (checkin_s1 NoConfidence) no_documents),
         snd (post_attendance_checkin ''11/3/2026'' 1 (checkin_s1 NoConfidence) no_documents))"
    by simp
  have b: "status (fst (post_attendance_checkin ''11/3/2026'' 1 (checkin_s1 NoConfidence) no_documents)) = 201"
    by (simp add: eval_server eval_strings)
  have c: "toUpperCase ''S1'' = toUpperCase ''s1''"
    by (simp add: eval_strings)
  show ?thesis
    using checkin_idempotent [OF a b, of "''s1''"
        "(checkin_s1 (Confidence 50))\<lparr>checkin_request.studentId := Str ''S1''\<rparr>" "''S1''"
        "[Checkin ''11/3/2026'' 2
            ((checkin_s1 NoConfidence)\<lparr>checkin_request.studentId := Str ''s2''\<rparr>),
          Delete ''s1'']" 9] b c
    by (auto simp: checkin_s1_def truthy_def json_def)
qed

subsection \<open>C2: the decision of the matcher\<close>

text \<open>
  Claim C2. On number vectors of equal length \<open>euclideanDistance\<close> is the square root
  of the sum of the squared component differences. With a face detected, the handler
  sends a check-in for a student exactly when some enrolled student is at a distance
  strictly below 0.6 from the probe, and it is then sent for a student whose distance is
  below 0.6 and than whom no enrolled student is closer; when no student is below 0.6
  it reports that the face is not recognised, and when no student is enrolled that
  there are no students; in both cases nothing is sent.
\<close>

theorem matcher_decision:
  "(length v = length w \<longrightarrow>
      euclideanDistance (map Num v) (map Num w) = Num (sqrt (\<Sum>i<length v. (v ! i - w ! i)\<^sup>2)))
   \<and> (startVerify (probe # rest) students = NoStudents \<longleftrightarrow> students = [])
   \<and> (startVerify (probe # rest) students = NotRecognized \<longleftrightarrow>
        students \<noteq> [] \<and>
        (\<forall>s\<in>set students. \<not> num_less (euclideanDistance probe (faceData s)) (Num (6 / 10))))
   \<and> (\<forall>req. startVerify (probe # rest) students = PostCheckin req \<longrightarrow>
        (\<exists>m\<in>set students.
           checkin_body.studentId req = id' m
           \<and> checkin_body.name req = student_descriptor.name m
           \<and> checkin_body.course req = student_descriptor.course m
           \<and> num_less (euclideanDistance probe (faceData m)) (Num (6 / 10))
           \<and> (\<forall>s\<in>set students. \<not> num_less (euclideanDistance probe (faceData s))
                                          (euclideanDistance probe (faceData m)))))
   \<and> ((\<exists>m\<in>set students. num_less (euclideanDistance probe (faceData m)) (Num (6 / 10))) \<longrightarrow>
        (\<exists>req. startVerify (probe # rest) students = PostCheckin req))"
proof (intro conjI allI impI)
  assume "length v = length w"
  then show "euclideanDistance (map Num v) (map Num w) = Num (sqrt (\<Sum>i<length v. (v ! i - w ! i)\<^sup>2))"
    by (simp add: euclideanDistance_prefix)
next
  show "startVerify (probe # rest) students = NoStudents \<longleftrightarrow> students = []"
    by (rule startVerify_NoStudents)
next
  show "startVerify (probe # rest) students = NotRecognized \<longleftrightarrow>
        students \<noteq> [] \<and>
        (\<forall>s\<in>set students. \<not> num_less (euclideanDistance probe (faceData s)) (Num (6 / 10)))"
    by (simp add: startVerify_NotRecognized bestMatchOf_None)
next
  fix req
  assume "startVerify (probe # rest) students = PostCheckin req"
  then obtain m bd where b: "bestMatchOf probe students = (Some m, bd)"
    and req: "req = \<lparr>checkin_body.studentId = id' m,
                checkin_body.name = student_descriptor.name m,
                checkin_body.course = student_descriptor.course m,
                checkin_body.confidence =
                   num_toFixed1 (num_mul (num_sub (Num 1) bd) (Num 100))\<rparr>"
    by (auto simp: startVerify_PostCheckin)
  from bestMatchOf_Some [OF b] req
  show "\<exists>m\<in>set students.
           checkin_body.studentId req = id' m
           \<and> checkin_body.name req = student_descriptor.name m
           \<and> checkin_body.course req = student_descriptor.course m
           \<and> num_less (euclideanDistance probe (faceData m)) (Num (6 / 10))
           \<and> (\<forall>s\<in>set students. \<not> num_less (euclideanDistance probe (faceData s))
                                          (euclideanDistance probe (faceData m)))"
    by (intro bexI [of _ m]) simp_all
next
  assume ex: "\<exists>m\<in>set students. num_less (euclideanDistance probe (faceData m)) (Num (6 / 10))"
  then have "fst (bestMatchOf probe students) \<noteq> None"
    by (simp add: bestMatchOf_None)
  then obtain m bd where "bestMatchOf probe students = (Some m, bd)"
    by (cases "bestMatchOf probe students") auto
  then show "\<exists>req. startVerify (probe # rest) students = PostCheckin req"
    by (simp add: startVerify_PostCheckin)
qed

text \<open>An instance of C2: the probe \<open>[0]\<close> against \<open>S1\<close> at distance 1 and \<open>S2\<close> at
  distance 0.5 is matched to \<open>S2\<close>; against \<open>S1\<close> alone it is not recognised.\<close>

theorem matcher_decision_witness:
  "length [0::real] = length [1 / 2 :: real]
   \<and> euclideanDistance (map Num [0]) (map Num [1 / 2]) = Num (1 / 2)
   \<and> num_less (euclideanDistance [Num 0] (faceData (enrolled ''S2'' [Num (1 / 2)]))) (Num (6 / 10))
   \<and> startVerify [[Num 0]] [enrolled ''S1'' [Num 1], enrolled ''S2'' [Num (1 / 2)]]
       = matched ''S2'' ''50.0''
   \<and> [enrolled ''S1'' [Num 1]] \<noteq> []
   \<and> startVerify [[Num 0]] [enrolled ''S1'' [Num 1]] = NotRecognized
   \<and> startVerify [[Num 0]] [] = NoStudents"
  using matcher_decision [of "[0]" "[1 / 2]" "[Num 0]" "[]"
      "[enrolled ''S1'' [Num 1], enrolled ''S2'' [Num (1 / 2)]]"]
    matcher_decision [of "[0]" "[1 / 2]" "[Num 0]" "[]" "[enrolled ''S1'' [Num 1]]"]
  by (simp add: eval_client Let_def)

subsection \<open>C3: the index on the ledger\<close>

text \<open>
  Claim C3 says that a unique index on \<open>(studentId, date)\<close> makes the second of two
  racing inserts fail. It does not hold: two check-ins of \<open>s1\<close> whose lookups both
  run before either record is created are both answered with 201, and the ledger then
  holds two records for \<open>(S1, 11/3/2026)\<close>.
\<close>

theorem duplicate_records_after_race:
  "status (fst (checkin_race ''11/3/2026'' 1 (checkin_s1 NoConfidence) 2 (checkin_s1 NoConfidence)
                  no_documents)) = 201
   \<and> status (fst (snd (checkin_race ''11/3/2026'' 1 (checkin_s1 NoConfidence) 2
                  (checkin_s1 NoConfidence) no_documents))) = 201
   \<and> map attendance_key
        (Attendance (snd (snd (checkin_race ''11/3/2026'' 1 (checkin_s1 NoConfidence) 2
                  (checkin_s1 NoConfidence) no_documents))))
       = [(''S1'', ''11/3/2026''), (''S1'', ''11/3/2026'')]"
  by (simp add: eval_server eval_strings)

text \<open>
  Claim C3, amended. The uniqueness of \<open>(studentId, date)\<close> is enforced by the lookup
  of the check-in handler only. The index is not unique: saving an attendance record
  never fails with a duplicate-key error. Requests served one after another keep the
  pairs of the ledger distinct. Two check-ins with the same body whose lookups both
  find nothing before either record is created are both answered with 201 when the
  first one is, and the ledger then holds two records for the pair.
\<close>

theorem ledger_uniqueness_by_lookup_only:
  "Attendance_save doc db \<noteq> Inl DuplicateKeyError
   \<and> (distinct (map attendance_key (Attendance db)) \<longrightarrow>
        distinct (map attendance_key (Attendance (snd (serve call db)))))
   \<and> (checkin_request.studentId body = Str sid \<and> checkin_lookup today body db = None
        \<and> status (fst (checkin_create today now1 body db)) = 201 \<longrightarrow>
        status (fst (checkin_race today now1 body now2 body db)) = 201
        \<and> status (fst (snd (checkin_race today now1 body now2 body db))) = 201
        \<and> ledger_count (toUpperCase sid) today
             (snd (snd (checkin_race today now1 body now2 body db))) = 2)"
proof (intro conjI impI)
  show "Attendance_save doc db \<noteq> Inl DuplicateKeyError"
    by (simp add: Attendance_save_def violates_unique_def attendanceSchema_index_unique_def)
next
  assume d: "distinct (map attendance_key (Attendance db))"
  show "distinct (map attendance_key (Attendance (snd (serve call db))))"
  proof (cases call)
    case (Register now body)
    then show ?thesis using d by simp
  next
    case (Delete param)
    then show ?thesis using d by simp
  next
    case (Checkin day now b)
    obtain res db' where e: "post_attendance_checkin day now b db = (res, db')"
      by (cases "post_attendance_checkin day now b db")
    from checkin_effect [OF e] show ?thesis
    proof
      assume "status res \<in> {400, 409, 500} \<and> db' = db"
      then show ?thesis using d e Checkin by simp
    next
      assume "\<exists>sid doc. checkin_request.studentId b = Str sid
        \<and> Attendance_findOne (toUpperCase sid) day (Attendance db) = None
        \<and> attendance.studentId doc = toUpperCase sid \<and> attendance.date doc = day
        \<and> attendance.checkInTime doc = now
        \<and> db' = db\<lparr>Attendance := Attendance db @ [doc]\<rparr>
        \<and> res = json 201 True ''Attendance marked successfully'' (AttendanceData doc)"
      then obtain s doc where
        none: "Attendance_findOne (toUpperCase s) day (Attendance db) = None" and
        doc: "attendance.studentId doc = toUpperCase s" "attendance.date doc = day" and
        db': "db' = db\<lparr>Attendance := Attendance db @ [doc]\<rparr>"
        by blast
      have "attendance_key doc \<notin> attendance_key ` set (Attendance db)"
        using none doc by (auto simp: Attendance_findOne_def find_None_iff attendance_key_def)
      then show ?thesis
        using d e Checkin db' by simp
    qed
  qed
next
  assume h: "checkin_request.studentId body = Str sid \<and> checkin_lookup today body db = None
        \<and> status (fst (checkin_create today now1 body db)) = 201"
  obtain res db' where c: "checkin_create today now1 body db = (res, db')"
    by (cases "checkin_create today now1 body db")
  with h have st: "status res = 201" by simp
  from checkin_create_again [OF c st, of now1 db] h obtain doc1 where
    doc1: "attendance.studentId doc1 = toUpperCase sid" "attendance.date doc1 = today" and
    c1: "checkin_create today now1 body db =
             (json 201 True ''Attendance marked successfully'' (AttendanceData doc1),
              db\<lparr>Attendance := Attendance db @ [doc1]\<rparr>)"
    by auto
  from checkin_create_again [OF c st, of now2 "db\<lparr>Attendance := Attendance db @ [doc1]\<rparr>"] h
  obtain doc2 where
    doc2: "attendance.studentId doc2 = toUpperCase sid" "attendance.date doc2 = today" and
    c2: "checkin_create today now2 body (db\<lparr>Attendance := Attendance db @ [doc1]\<rparr>) =
             (json 201 True ''Attendance marked successfully'' (AttendanceData doc2),
              db\<lparr>Attendance := Attendance db @ [doc1, doc2]\<rparr>)"
    by auto
  have race: "checkin_race today now1 body now2 body db =
      (json 201 True ''Attendance marked successfully'' (AttendanceData doc1),
       json 201 True ''Attendance marked successfully'' (AttendanceData doc2),
       db\<lparr>Attendance := Attendance db @ [doc1, doc2]\<rparr>)"
    using h c1 c2 by (simp add: checkin_race_def checkin_finish_def)
  have "Attendance_findOne (toUpperCase sid) today (Attendance db) = None"
    using h by (auto simp: checkin_lookup_None)
  then have zero: "ledger_count (toUpperCase sid) today db = 0"
    by (simp add: ledger_count_0)
  show "status (fst (checkin_race today now1 body now2 body db)) = 201"
    by (simp add: race json_def)
  show "status (fst (snd (checkin_race today now1 body now2 body db))) = 201"
    by (simp add: race json_def)
  show "ledger_count (toUpperCase sid) today
             (snd (snd (checkin_race today now1 body now2 body db))) = 2"
    using zero doc1 doc2 by (simp add: race ledger_count_def)
qed

text \<open>An instance of the amended C3, on the empty ledger.\<close>

theorem ledger_uniqueness_by_lookup_only_witness:
  "distinct (map attendance_key (Attendance no_documents))
   \<and> distinct (map attendance_key
        (Attendance (snd (serve (Checkin ''11/3/2026'' 1 (checkin_s1 NoConfidence)) no_documents))))
   \<and> checkin_request.studentId (checkin_s1 NoConfidence) = Str ''s1''
   \<and> checkin_lookup ''11/3/2026'' (checkin_s1 NoConfidence) no_documents = None
   \<and> status (fst (checkin_create ''11/3/2026'' 1 (checkin_s1 NoConfidence) no_documents)) = 201
   \<and> ledger_count (toUpperCase ''s1'') ''11/3/2026''
        (snd (snd (checkin_race ''11/3/2026'' 1 (checkin_s1 NoConfidence) 2
                     (checkin_s1 NoConfidence) no_documents))) = 2"
  using ledger_uniqueness_by_lookup_only [where db = no_documents
      and call = "Checkin ''11/3/2026'' 1 (checkin_s1 NoConfidence)"
      and body = "checkin_s1 NoConfidence" and sid = "''s1''" and today = "''11/3/2026''"
      and ?now1.0 = 1 and ?now2.0 = 2]
  by (simp add: eval_server eval_strings)

subsection \<open>C4: the averaged descriptor\<close>

text \<open>
  Claim C4. From at least three number vectors, all of length \<open>L\<close>, the aggregation
  returns a vector of length \<open>L\<close> whose \<open>i\<close>-th component is the sum of the
  \<open>i\<close>-th components of the samples divided by their number. It is a function of its
  argument only.
\<close>

theorem avgDescriptor_mean:
  fixes samples :: "real list list"
  assumes "3 \<le> length samples" and "\<forall>s\<in>set samples. length s = L"
  shows "\<exists>avg. avgDescriptor (map (map Num) samples) = Inr avg \<and> length avg = L \<and>
           (\<forall>i<L. avg ! i = Num ((\<Sum>s\<leftarrow>samples. s ! i) / real (length samples)))"
proof -
  from assms(1) obtain s0 rest where samples: "samples = s0 # rest"
    by (cases samples) auto
  have len0: "length s0 = L"
    using assms(2) samples by simp
  define avg where "avg = map (\<lambda>i. num_div
        (foldl (\<lambda>acc sample. num_add acc (elem sample i)) (Num 0) (map (map Num) samples))
        (Num (real (length samples)))) [0..<L]"
  have run: "avgDescriptor (map (map Num) samples) = Inr avg"
    by (simp add: avgDescriptor_def samples avg_def len0)
  have comp: "avg ! i = Num ((\<Sum>s\<leftarrow>samples. s ! i) / real (length samples))" if "i < L" for i
  proof -
    have "\<forall>s\<in>set samples. i < length s"
      using assms(2) that by simp
    then have "foldl (\<lambda>acc sample. num_add acc (elem sample i)) (Num 0) (map (map Num) samples)
        = Num (0 + (\<Sum>s\<leftarrow>samples. s ! i))"
      by (rule foldl_add_elem)
    moreover have "real (length samples) \<noteq> 0"
      using samples by simp
    ultimately show ?thesis
      using that by (simp add: avg_def)
  qed
  show ?thesis
    using run comp by (simp add: avg_def)
qed

text \<open>An instance of C4: three samples of length 2.\<close>

theorem avgDescriptor_mean_witness:
  "3 \<le> length [[1, 2], [3, 4], [5, 9::real]]
   \<and> length [1, 2::real] = 2 \<and> length [3, 4::real] = 2 \<and> length [5, 9::real] = 2
   \<and> avgDescriptor (map (map Num) [[1, 2], [3, 4], [5, 9]]) = Inr [Num 3, Num 5]
   \<and> Num 3 = Num ((1 + 3 + 5) / real (length [[1, 2], [3, 4], [5, 9::real]]))
   \<and> Num 5 = Num ((2 + 4 + 9) / real (length [[1, 2], [3, 4], [5, 9::real]]))"
  using avgDescriptor_mean [of "[[1, 2], [3, 4], [5, 9]]" 2]
  by (simp add: avgDescriptor_def elem_def)

subsection \<open>C5: registering an identity key twice\<close>

text \<open>
  Claim C5 says that only an active registration blocks a new one. It does not hold:
  after \<open>s1\<close> has been registered and soft-deleted, the only student document is
  inactive, and registering \<open>s1\<close> again is answered with 409.
\<close>

theorem deleted_student_blocks_registration:
  "map student.isActive
      (Student (run [Register 1 (register_s1 (Descriptor (replicate 128 (Number 0)))), Delete ''s1'']
                  no_documents)) = [False]
   \<and> status (fst (post_students_register 2 (register_s1 (Descriptor (replicate 128 (Number 0))))
        (run [Register 1 (register_s1 (Descriptor (replicate 128 (Number 0)))), Delete ''s1'']
           no_documents))) = 409"
  by (simp add: eval_server eval_strings)

text \<open>
  Claim C5, amended. Once an identity key has been registered with 201, any later
  registration of the same key (compared in upper case), sent with a name, a course and
  a descriptor of length 128, is answered with 409 and adds no student, whatever
  requests were served in between: a registration blocks the new one whether it is
  still active or has been soft-deleted.
\<close>

theorem registration_unique:
  assumes first: "post_students_register now body db = (res, db')" "status res = 201"
    and sid: "register_request.studentId body = Str sid"
    and again: "register_request.studentId body2 = Str sid2" "toUpperCase sid2 = toUpperCase sid"
      "truthy (register_request.name body2)" "truthy (register_request.course body2)"
      "register_request.faceDescriptor body2 = Descriptor d2" "length d2 = 128"
  shows "post_students_register now2 body2 (run calls db') =
           (json 409 False ''Student ID already registered'' NoData, run calls db')
     \<and> length (Student (snd (post_students_register now2 body2 (run calls db'))))
         = length (Student (run calls db'))"
proof -
  from register_effect [OF first(1)] first(2) sid obtain n c d where
    db': "db' = db\<lparr>Student := Student db @ [new_Student (toUpperCase sid) n c d now]\<rparr>"
    by auto
  have "studentId_setters (toUpperCase sid) \<in> student.studentId ` set (Student db')"
    by (auto simp: db' intro!: image_eqI [of _ _ "new_Student (toUpperCase sid) n c d now"])
  then have key: "studentId_setters (toUpperCase sid2) \<in> student.studentId ` set (Student (run calls db'))"
    unfolding again(2) by (rule run_keeps_key)
  have ne: "sid \<noteq> []"
    using first sid by (auto simp: post_students_register_def json_def truthy_def split: if_splits)
  have "length sid2 = length sid"
    using arg_cong [OF again(2), of length] by (simp add: toUpperCase_def)
  then have "sid2 \<noteq> []" using ne by auto
  then have "post_students_register now2 body2 (run calls db') =
           (json 409 False ''Student ID already registered'' NoData, run calls db')"
    using again key by (intro register_conflict [where sid = sid2 and d = d2]) simp_all
  then show ?thesis by simp
qed

text \<open>An instance of the amended C5: \<open>s1\<close> is registered and soft-deleted, then
  \<open>S1\<close> is registered.\<close>

theorem registration_unique_witness:
  "status (fst (post_students_register 1 (register_s1 (Descriptor (replicate 128 (Number 0)))) no_documents)) = 201
   \<and> register_request.studentId (register_s1 (Descriptor (replicate 128 (Number 0)))) = Str ''s1''
   \<and> register_request.studentId
        ((register_s1 (Descriptor (replicate 128 (Number 1))))\<lparr>register_request.studentId := Str ''S1''\<rparr>)
       = Str ''S1''
   \<and> toUpperCase ''S1'' = toUpperCase ''s1''
   \<and> length (replicate 128 (Number 1)) = 128
   \<and> status (fst (post_students_register 3
        ((register_s1 (Descriptor (replicate 128 (Number 1))))\<lparr>register_request.studentId := Str ''S1''\<rparr>)
        (run [Delete ''s1'']
           (snd (post_students_register 1 (register_s1 (Descriptor (replicate 128 (Number 0)))) no_documents)))))
       = 409"
proof -
  have a: "post_students_register 1 (register_s1 (Descriptor (replicate 128 (Number 0)))) no_documents
      = (fst (post_students_register 1 (register_s1 (Descriptor (replicate 128 (Number 0)))) no_documents),
         snd (post_students_register 1 (register_s1 (Descriptor (replicate 128 (Number 0)))) no_documents))"
    by simp
  have b: "status (fst (post_students_register 1 (register_s1 (Descriptor (replicate 128 (Number 0)))) no_documents)) = 201"
    by (simp add: eval_server eval_strings)
  have c: "toUpperCase ''S1'' = toUpperCase ''s1''"
    by (simp add: eval_strings)
  show ?thesis
    using registration_unique [OF a b, of "''s1''"
        "(register_s1 (Descriptor (replicate 128 (Number 1))))\<lparr>register_request.studentId := Str ''S1''\<rparr>"
        "''S1''" "replicate 128 (Number 1)" 3 "[Delete ''s1'']"] b c
    by (simp add: register_s1_def truthy_def json_def)
qed

subsection \<open>C6: the confidence sent with a check-in\<close>

text \<open>
  Claim C6 says that the confidence equals \<open>(1 - d) * 100\<close>. It does not hold: at
  distance \<open>1/16\<close> that value is 93.75, and the confidence sent is the string
  \<open>93.8\<close>.
\<close>

theorem confidence_not_exact:
  "startVerify [[Num 0]] [enrolled ''S1'' [Num (1 / 16)]] = matched ''S1'' ''93.8''
   \<and> euclideanDistance [Num 0] [Num (1 / 16)] = Num (1 / 16)
   \<and> (1 - 1 / 16) * 100 = (93.75 :: real)
   \<and> real (toFixed1_tenths ((1 - 1 / 16) * 100)) / 10 \<noteq> (1 - 1 / 16) * 100"
  by (simp add: eval_client Let_def)

text \<open>
  Claim C6, amended. For a match at minimum distance \<open>d\<close> the confidence sent is
  \<open>(1 - d) * 100\<close> printed by \<open>toFixed(1)\<close>, that is rounded to one decimal place,
  so it differs from \<open>(1 - d) * 100\<close> by at most 0.05; a probe equal to an enrolled
  number vector is matched with the confidence \<open>100.0\<close>.
\<close>

theorem confidence_rounded:
  "(\<forall>req. startVerify (probe # rest) students = PostCheckin req \<longrightarrow>
      (\<exists>m\<in>set students. \<exists>d.
          checkin_body.studentId req = id' m
          \<and> euclideanDistance probe (faceData m) = Num d \<and> 0 \<le> d \<and> d < 6 / 10
          \<and> (\<forall>s\<in>set students. \<not> num_less (euclideanDistance probe (faceData s)) (Num d))
          \<and> checkin_body.confidence req = toFixed1 ((1 - d) * 100)
          \<and> \<bar>real (toFixed1_tenths ((1 - d) * 100)) / 10 - (1 - d) * 100\<bar> \<le> 1 / 20))
   \<and> ((\<exists>s\<in>set students. faceData s = map Num v) \<longrightarrow>
      (\<exists>req. startVerify (map Num v # rest) students = PostCheckin req
          \<and> checkin_body.confidence req = ''100.0''))"
proof (intro conjI allI impI)
  fix req
  assume "startVerify (probe # rest) students = PostCheckin req"
  then obtain m bd where b: "bestMatchOf probe students = (Some m, bd)"
    and req: "req = \<lparr>checkin_body.studentId = id' m,
                checkin_body.name = student_descriptor.name m,
                checkin_body.course = student_descriptor.course m,
                checkin_body.confidence =
                   num_toFixed1 (num_mul (num_sub (Num 1) bd) (Num 100))\<rparr>"
    by (auto simp: startVerify_PostCheckin)
  note m = bestMatchOf_Some [OF b]
  from m(3) obtain d where d: "bd = Num d" "d < 6 / 10"
    by (auto dest: num_less_Num)
  have d0: "0 \<le> d"
    using m(2) d(1) by (auto dest: euclideanDistance_nonneg)
  have "0 \<le> (1 - d) * 100"
    using d(2) by simp
  then have "\<bar>real (toFixed1_tenths ((1 - d) * 100)) / 10 - (1 - d) * 100\<bar> \<le> 1 / 20"
    by (rule toFixed1_tenths_close)
  with m d d0 req
  show "\<exists>m\<in>set students. \<exists>d.
          checkin_body.studentId req = id' m
          \<and> euclideanDistance probe (faceData m) = Num d \<and> 0 \<le> d \<and> d < 6 / 10
          \<and> (\<forall>s\<in>set students. \<not> num_less (euclideanDistance probe (faceData s)) (Num d))
          \<and> checkin_body.confidence req = toFixed1 ((1 - d) * 100)
          \<and> \<bar>real (toFixed1_tenths ((1 - d) * 100)) / 10 - (1 - d) * 100\<bar> \<le> 1 / 20"
    by (intro bexI [of _ m] exI [of _ d]) simp_all
next
  assume "\<exists>s\<in>set students. faceData s = map Num v"
  then obtain s where s: "s \<in> set students" "faceData s = map Num v"
    by blast
  have zero: "euclideanDistance (map Num v) (faceData s) = Num 0"
    by (simp add: s(2) euclideanDistance_prefix)
  then have "\<not> (\<forall>s\<in>set students. \<not> num_less (euclideanDistance (map Num v) (faceData s)) (Num (6 / 10)))"
    using s(1) by (auto intro!: bexI [of _ s])
  then have "fst (bestMatchOf (map Num v) students) \<noteq> None"
    by (simp add: bestMatchOf_None)
  then obtain m bd where b: "bestMatchOf (map Num v) students = (Some m, bd)"
    by (cases "bestMatchOf (map Num v) students") auto
  note m = bestMatchOf_Some [OF b]
  from m(3) obtain d where d: "bd = Num d"
    by (auto dest: num_less_Num)
  have "0 \<le> d"
    using m(2) d by (auto dest: euclideanDistance_nonneg)
  moreover have "\<not> num_less (Num 0) (Num d)"
    using m(4) s(1) zero d by auto
  ultimately have "d = 0" by simp
  then have "num_toFixed1 (num_mul (num_sub (Num 1) bd) (Num 100)) = ''100.0''"
    by (simp add: d toFixed1_def toFixed1_tenths_def digits.simps digit_char_def)
  then show "\<exists>req. startVerify (map Num v # rest) students = PostCheckin req
          \<and> checkin_body.confidence req = ''100.0''"
    using b by (simp add: startVerify_PostCheckin)
qed

text \<open>An instance of the amended C6: the probe at distance \<open>1/16\<close>, and the probe
  equal to the enrolled vector.\<close>

theorem confidence_rounded_witness:
  "startVerify [[Num 0]] [enrolled ''S1'' [Num (1 / 16)]] = matched ''S1'' ''93.8''
   \<and> euclideanDistance [Num 0] (faceData (enrolled ''S1'' [Num (1 / 16)])) = Num (1 / 16)
   \<and> \<bar>real (toFixed1_tenths ((1 - 1 / 16) * 100)) / 10 - (1 - 1 / 16) * 100\<bar> \<le> 1 / 20
   \<and> faceData (enrolled ''S1'' [Num (1 / 16)]) = map Num [1 / 16]
   \<and> startVerify [map Num [1 / 16]] [enrolled ''S1'' [Num (1 / 16)]] = matched ''S1'' ''100.0''"
  using confidence_rounded [of "[Num 0]" "[]" "[enrolled ''S1'' [Num (1 / 16)]]" "[1 / 16]"]
  by (simp add: eval_client Let_def)

subsection \<open>C7: a probe of another length\<close>

text \<open>
  Claim C7 says that a probe whose length differs from that of an enrolled vector
  makes the matcher fail. It does not hold: the probe \<open>[0]\<close> of length 1 against the
  enrolled vector \<open>[0, 5]\<close> of length 2 is matched, with the confidence \<open>100.0\<close>.
\<close>

theorem shorter_probe_matches:
  "length [Num 0] \<noteq> length (faceData (enrolled ''S1'' [Num 0, Num 5]))
   \<and> startVerify [[Num 0]] [enrolled ''S1'' [Num 0, Num 5]] = matched ''S1'' ''100.0''"
  by (simp add: eval_client Let_def)

text \<open>
  Claim C7, amended. The matcher does not compare lengths and has no failure of its
  own. Against a number vector that is at least as long as the probe, the distance is
  taken over the components of the probe only; against a vector that is shorter than
  the probe the distance is \<open>NaN\<close>, which is never below the threshold: a probe
  longer than every enrolled vector is not recognised, and a student that is matched
  has a vector at least as long as the probe.
\<close>

theorem probe_length_unchecked:
  "(length p \<le> length e \<longrightarrow>
      euclideanDistance (map Num p) (map Num e) = Num (sqrt (\<Sum>i<length p. (p ! i - e ! i)\<^sup>2)))
   \<and> (length b < length a \<longrightarrow> euclideanDistance a b = NaN)
   \<and> ((\<forall>s\<in>set students. length (faceData s) < length probe) \<and> students \<noteq> [] \<longrightarrow>
        startVerify (probe # rest) students = NotRecognized)
   \<and> (\<forall>req. startVerify (probe # rest) students = PostCheckin req \<longrightarrow>
        (\<exists>m\<in>set students. checkin_body.studentId req = id' m
            \<and> length probe \<le> length (faceData m)))"
proof (intro conjI allI impI)
  assume "length p \<le> length e"
  then show "euclideanDistance (map Num p) (map Num e) = Num (sqrt (\<Sum>i<length p. (p ! i - e ! i)\<^sup>2))"
    by (rule euclideanDistance_prefix)
next
  assume "length b < length a"
  then show "euclideanDistance a b = NaN"
    by (rule euclideanDistance_longer_probe)
next
  assume "(\<forall>s\<in>set students. length (faceData s) < length probe) \<and> students \<noteq> []"
  then show "startVerify (probe # rest) students = NotRecognized"
    by (simp add: startVerify_NotRecognized bestMatchOf_None euclideanDistance_longer_probe)
next
  fix req
  assume "startVerify (probe # rest) students = PostCheckin req"
  then obtain m bd where b: "bestMatchOf probe students = (Some m, bd)"
    and req: "checkin_body.studentId req = id' m"
    by (auto simp: startVerify_PostCheckin)
  note m = bestMatchOf_Some [OF b]
  have "\<not> length (faceData m) < length probe"
  proof
    assume "length (faceData m) < length probe"
    then have "euclideanDistance probe (faceData m) = NaN"
      by (rule euclideanDistance_longer_probe)
    with m(2) m(3) show False by simp
  qed
  with m(1) req show "\<exists>m\<in>set students. checkin_body.studentId req = id' m
            \<and> length probe \<le> length (faceData m)"
    by (intro bexI [of _ m]) simp_all
qed

text \<open>An instance of the amended C7: the probe \<open>[0]\<close> against \<open>[0, 5]\<close>, and the
  probe \<open>[0, 5]\<close> against \<open>[0]\<close>.\<close>

theorem probe_length_unchecked_witness:
  "length [0::real] \<le> length [0, 5::real]
   \<and> euclideanDistance (map Num [0]) (map Num [0, 5]) = Num 0
   \<and> length [Num 0] < length [Num 0, Num 5]
   \<and> euclideanDistance [Num 0, Num 5] [Num 0] = NaN
   \<and> length (faceData (enrolled ''S1'' [Num 0])) < length [Num 0, Num 5]
   \<and> startVerify [[Num 0, Num 5]] [enrolled ''S1'' [Num 0]] = NotRecognized
   \<and> startVerify [[Num 0]] [enrolled ''S1'' [Num 0, Num 5]] = matched ''S1'' ''100.0''
   \<and> length [Num 0] \<le> length (faceData (enrolled ''S1'' [Num 0, Num 5]))"
  using probe_length_unchecked [where p = "[0]" and e = "[0, 5]" and b = "[Num 0]"
      and a = "[Num 0, Num 5]" and students = "[enrolled ''S1'' [Num 0]]"
      and probe = "[Num 0, Num 5]" and rest = "[]"]
    probe_length_unchecked [where p = "[0]" and e = "[0, 5]" and b = "[Num 0]"
      and a = "[Num 0, Num 5]" and students = "[enrolled ''S1'' [Num 0, Num 5]]"
      and probe = "[Num 0]" and rest = "[]"]
  by (simp add: eval_client Let_def)

subsection \<open>C8: what the registration checks before it averages\<close>

text \<open>
  Claim C8 says that samples of differing lengths make the aggregation fail and no
  registration is sent. It does not hold: with three samples of lengths 2, 1 and 3 the
  registration is sent, with a descriptor of the length of the first sample.
\<close>

theorem mismatched_samples_submitted:
  "registerStudent ''s1'' ''Ann'' ''Math'' [[Num 1, Num 2], [Num 3], [Num 5, Num 6, Num 7]]
     = PostRegister \<lparr>register_body.studentId = ''S1'', register_body.name = ''Ann'',
         register_body.course = ''Math'', register_body.faceDescriptor = [Num 3, NaN]\<rparr>"
  by (simp add: eval_client eval_strings)

text \<open>
  Claim C8, amended. With fewer than three samples the handler stops with an error
  message and sends no registration. The lengths of the samples are not checked: with
  three or more samples and the three form fields filled in, the registration is
  always sent, its descriptor the result of the aggregation, of the length of the
  first sample.
\<close>

theorem aggregator_validation:
  "(length capturedSamples < 3 \<longrightarrow>
      registerStudent reg_id reg_name reg_course capturedSamples \<in> {MissingFields, MissingFaceSamples})
   \<and> (3 \<le> length capturedSamples \<and> toUpperCase (trim reg_id) \<noteq> [] \<and> trim reg_name \<noteq> []
        \<and> trim reg_course \<noteq> [] \<longrightarrow>
      (\<exists>body. registerStudent reg_id reg_name reg_course capturedSamples = PostRegister body
         \<and> avgDescriptor capturedSamples = Inr (register_body.faceDescriptor body)
         \<and> length (register_body.faceDescriptor body) = length (hd capturedSamples)))"
  by (cases capturedSamples) (auto simp: registerStudent_def avgDescriptor_def Let_def)

text \<open>An instance of the amended C8: two samples, and three samples of differing
  lengths.\<close>

theorem aggregator_validation_witness:
  "length [[Num 1], [Num 3]] < 3
   \<and> registerStudent ''s1'' ''Ann'' ''Math'' [[Num 1], [Num 3]] = MissingFaceSamples
   \<and> 3 \<le> length [[Num 1, Num 2], [Num 3], [Num 5, Num 6, Num 7]]
   \<and> toUpperCase (trim ''s1'') \<noteq> [] \<and> trim ''Ann'' \<noteq> [] \<and> trim ''Math'' \<noteq> []
   \<and> registerStudent ''s1'' ''Ann'' ''Math'' [[Num 1, Num 2], [Num 3], [Num 5, Num 6, Num 7]]
       \<noteq> MissingFaceSamples
   \<and> registerStudent ''s1'' ''Ann'' ''Math'' [[Num 1, Num 2], [Num 3], [Num 5, Num 6, Num 7]]
       \<noteq> MissingFields"
  using aggregator_validation [of "[[Num 1], [Num 3]]" "''s1''" "''Ann''" "''Math''"]
    aggregator_validation [of "[[Num 1, Num 2], [Num 3], [Num 5, Num 6, Num 7]]" "''s1''" "''Ann''" "''Math''"]
  by (simp add: eval_client eval_strings)

subsection \<open>C9: the length of a registered descriptor\<close>

text \<open>
  Claim C9 says that a registration whose descriptor is not an array of exactly 128
  numbers is answered with 400 and creates no student. It does not hold: the handler
  looks at the length of the array and not at its entries, and an array of 128
  \<open>null\<close> entries is answered with 201 and stored as the descriptor of the new
  student.
\<close>

theorem null_descriptor_registered:
  "length (replicate 128 Null) = 128
   \<and> status (fst (post_students_register 1 (register_s1 (Descriptor (replicate 128 Null)))
        no_documents)) = 201
   \<and> map student.studentId
        (Student (snd (post_students_register 1 (register_s1 (Descriptor (replicate 128 Null)))
           no_documents))) = [''S1'']
   \<and> map student.faceDescriptor
        (Student (snd (post_students_register 1 (register_s1 (Descriptor (replicate 128 Null)))
           no_documents))) = [replicate 128 None]"
  by (simp add: eval_server eval_strings)

text \<open>
  Claim C9, amended. A registration whose descriptor is missing, is not an array, or
  is an array of a length other than 128 is answered with 400, and the database is left
  as it was, whatever the entries of the array are.
\<close>

theorem descriptor_length_validated:
  "(\<forall>d. register_request.faceDescriptor body = Descriptor d \<longrightarrow> length d \<noteq> 128) \<longrightarrow>
     status (fst (post_students_register now body db)) = 400
     \<and> snd (post_students_register now body db) = db"
  by (cases "register_request.faceDescriptor body")
     (simp_all add: post_students_register_def json_def)

text \<open>An instance of the amended C9: a descriptor of 127 numbers is refused, where
  one of 128 numbers is accepted.\<close>

theorem descriptor_length_validated_witness:
  "register_request.faceDescriptor (register_s1 (Descriptor (replicate 127 (Number 0))))
      = Descriptor (replicate 127 (Number 0))
   \<and> length (replicate 127 (Number 0)) \<noteq> 128
   \<and> status (fst (post_students_register 1 (register_s1 (Descriptor (replicate 127 (Number 0)))) no_documents)) = 400
   \<and> snd (post_students_register 1 (register_s1 (Descriptor (replicate 127 (Number 0)))) no_documents) = no_documents
   \<and> status (fst (post_students_register 1 (register_s1 (Descriptor (replicate 129 Uncastable))) no_documents)) = 400
   \<and> status (fst (post_students_register 1 (register_s1 NotAnArray) no_documents)) = 400
   \<and> status (fst (post_students_register 1 (register_s1 (Descriptor (replicate 128 (Number 0)))) no_documents)) = 201"
  using descriptor_length_validated [of "register_s1 (Descriptor (replicate 127 (Number 0)))" 1 no_documents]
  by (simp add: eval_server eval_strings)

subsection \<open>C10: a check-in for an identity key that is not registered\<close>

text \<open>
  Claim C10 says that every check-in with a non-empty identity key, name and course
  and no record for today is answered with 201. It does not hold: with a confidence of
  150, above the \<open>max: 100\<close> of the schema, \<open>save\<close> rejects the record and the answer
  is 500; nothing is stored.
\<close>

theorem checkin_rejected_by_schema:
  "truthy (checkin_request.studentId (checkin_s1 (Confidence 150)))
   \<and> truthy (checkin_request.name (checkin_s1 (Confidence 150)))
   \<and> truthy (checkin_request.course (checkin_s1 (Confidence 150)))
   \<and> ledger_count ''S1'' ''11/3/2026'' no_documents = 0
   \<and> post_attendance_checkin ''11/3/2026'' 1 (checkin_s1 (Confidence 150)) no_documents
     = (json 500 False ''Error marking attendance'' (ErrorData ValidationError), no_documents)"
  by (simp add: eval_server eval_strings)

text \<open>
  Claim C10, amended. The check-in never looks at the students: its answer and the
  ledger it leaves are the same whatever the student collection holds, and its status
  is one of 201, 400, 409 and 500, never 404. Every request with a non-empty string as
  identity key, a name and a course that are strings and not blank, a confidence that
  is absent or a number from 0 to 100, and no record for the key today, is answered
  with 201, and its record is appended to the ledger (the date string of the server's
  clock is not empty).
\<close>

theorem checkin_without_student_lookup:
  "(checkin_request.studentId body = Str sid \<and> sid \<noteq> []
      \<and> checkin_request.name body = Str n \<and> trim n \<noteq> []
      \<and> checkin_request.course body = Str c \<and> trim c \<noteq> []
      \<and> today \<noteq> []
      \<and> (checkin_request.confidence body = NoConfidence \<and> conf = None
          \<or> checkin_request.confidence body = Confidence r \<and> 0 \<le> r \<and> r \<le> 100 \<and> conf = Some r)
      \<and> ledger_count (toUpperCase sid) today db = 0
    \<longrightarrow> post_attendance_checkin today now body db =
          (json 201 True ''Attendance marked successfully''
             (AttendanceData \<lparr>attendance.studentId = toUpperCase sid, attendance.name = trim n,
                attendance.course = trim c, attendance.checkInTime = now,
                attendance.date = today, attendance.confidence = conf\<rparr>),
           db\<lparr>Attendance := Attendance db @
                [\<lparr>attendance.studentId = toUpperCase sid, attendance.name = trim n,
                  attendance.course = trim c, attendance.checkInTime = now,
                  attendance.date = today, attendance.confidence = conf\<rparr>]\<rparr>))
   \<and> status (fst (post_attendance_checkin today now body db)) \<in> {201, 400, 409, 500}
   \<and> fst (post_attendance_checkin today now body (db\<lparr>Student := anyone\<rparr>))
       = fst (post_attendance_checkin today now body db)
   \<and> Attendance (snd (post_attendance_checkin today now body (db\<lparr>Student := anyone\<rparr>)))
       = Attendance (snd (post_attendance_checkin today now body db))"
proof (intro conjI impI)
  assume h: "checkin_request.studentId body = Str sid \<and> sid \<noteq> []
      \<and> checkin_request.name body = Str n \<and> trim n \<noteq> []
      \<and> checkin_request.course body = Str c \<and> trim c \<noteq> []
      \<and> today \<noteq> []
      \<and> (checkin_request.confidence body = NoConfidence \<and> conf = None
          \<or> checkin_request.confidence body = Confidence r \<and> 0 \<le> r \<and> r \<le> 100 \<and> conf = Some r)
      \<and> ledger_count (toUpperCase sid) today db = 0"
  then have "n \<noteq> []" "c \<noteq> []"
    by (auto simp: trim_def)
  with h have "checkin_lookup today body db = None"
    by (simp add: checkin_lookup_None truthy_def ledger_count_0)
  then have "post_attendance_checkin today now body db = checkin_create today now body db"
    by (simp add: post_attendance_checkin_def checkin_finish_def)
  also have "\<dots> = (json 201 True ''Attendance marked successfully''
             (AttendanceData \<lparr>attendance.studentId = toUpperCase sid, attendance.name = trim n,
                attendance.course = trim c, attendance.checkInTime = now,
                attendance.date = today, attendance.confidence = conf\<rparr>),
           db\<lparr>Attendance := Attendance db @
                [\<lparr>attendance.studentId = toUpperCase sid, attendance.name = trim n,
                  attendance.course = trim c, attendance.checkInTime = now,
                  attendance.date = today, attendance.confidence = conf\<rparr>]\<rparr>)"
    using h by (intro checkin_created [where r = r]) simp_all
  finally show "post_attendance_checkin today now body db =
          (json 201 True ''Attendance marked successfully''
             (AttendanceData \<lparr>attendance.studentId = toUpperCase sid, attendance.name = trim n,
                attendance.course = trim c, attendance.checkInTime = now,
                attendance.date = today, attendance.confidence = conf\<rparr>),
           db\<lparr>Attendance := Attendance db @
                [\<lparr>attendance.studentId = toUpperCase sid, attendance.name = trim n,
                  attendance.course = trim c, attendance.checkInTime = now,
                  attendance.date = today, attendance.confidence = conf\<rparr>]\<rparr>)" .
next
  obtain res db' where e: "post_attendance_checkin today now body db = (res, db')"
    by (cases "post_attendance_checkin today now body db")
  from checkin_effect [OF e]
  show "status (fst (post_attendance_checkin today now body db)) \<in> {201, 400, 409, 500}"
    unfolding e by (auto simp: json_def)
next
  show "fst (post_attendance_checkin today now body (db\<lparr>Student := anyone\<rparr>))
       = fst (post_attendance_checkin today now body db)"
    by (simp add: checkin_ignores_Student)
next
  show "Attendance (snd (post_attendance_checkin today now body (db\<lparr>Student := anyone\<rparr>)))
       = Attendance (snd (post_attendance_checkin today now body db))"
    by (simp add: checkin_ignores_Student)
qed

text \<open>An instance of the amended C10: \<open>s1\<close> checks in on a server that holds no
  student.\<close>

theorem checkin_without_student_lookup_witness:
  "checkin_request.studentId (checkin_s1 (Confidence 93.8)) = Str ''s1'' \<and> ''s1'' \<noteq> []
   \<and> checkin_request.name (checkin_s1 (Confidence 93.8)) = Str ''Ann'' \<and> trim ''Ann'' \<noteq> []
   \<and> checkin_request.course (checkin_s1 (Confidence 93.8)) = Str ''Math'' \<and> trim ''Math'' \<noteq> []
   \<and> ''11/3/2026'' \<noteq> []
   \<and> checkin_request.confidence (checkin_s1 (Confidence 93.8)) = Confidence 93.8
   \<and> (0::real) \<le> 93.8 \<and> (93.8::real) \<le> 100
   \<and> ledger_count (toUpperCase ''s1'') ''11/3/2026'' no_documents = 0
   \<and> Student no_documents = []
   \<and> status (fst (post_attendance_checkin ''11/3/2026'' 7 (checkin_s1 (Confidence 93.8)) no_documents)) = 201
   \<and> Attendance (snd (post_attendance_checkin ''11/3/2026'' 7 (checkin_s1 (Confidence 93.8)) no_documents))
       = [\<lparr>attendance.studentId = ''S1'', attendance.name = ''Ann'', attendance.course = ''Math'',
           attendance.checkInTime = 7, attendance.date = ''11/3/2026'',
           attendance.confidence = Some 93.8\<rparr>]"
  using checkin_without_student_lookup [of "checkin_s1 (Confidence 93.8)" "''s1''" "''Ann''" "''Math''"
      "''11/3/2026''" "Some 93.8" "93.8" no_documents 7 "[]"]
  by (simp add: eval_server eval_strings)

end
